theory Spec2Isabelle
  imports Main
begin

section \<open>Values exchanged with the server\<close>

text \<open>
  Response and request bodies are JSON values. Numbers are modelled as integers: the
  code under study only tests whether a number is zero, and prints one only where a
  server sends a number in the place of the access token.
\<close>

datatype json =
    JNull
  | JBool bool
  | JNum int
  | JStr string
  | JArr "json list"
  | JObj "(string \<times> json) list"

text \<open>JavaScript truthiness, as tested by \<^verbatim>\<open>if (x)\<close> and \<^verbatim>\<open>x || y\<close>.\<close>

fun truthy :: "json \<Rightarrow> bool" where
  "truthy JNull = False"
| "truthy (JBool b) = b"
| "truthy (JNum n) = (n \<noteq> 0)"
| "truthy (JStr s) = (s \<noteq> [])"
| "truthy (JArr xs) = True"
| "truthy (JObj kvs) = True"

text \<open>
  Property read \<^verbatim>\<open>data.k\<close> on a non-null value: \<open>None\<close> is \<^verbatim>\<open>undefined\<close>. Of two
  equal keys in a parsed object the later one wins. Only the keys \<^verbatim>\<open>message\<close>,
  \<^verbatim>\<open>detail\<close>, \<^verbatim>\<open>error\<close> and \<^verbatim>\<open>access\<close> are ever read, none of which is a
  built-in property of strings, numbers, booleans or arrays.
\<close>

fun property :: "json \<Rightarrow> string \<Rightarrow> json option" where
  "property (JObj kvs) k = map_of (rev kvs) k"
| "property j k = None"

text \<open>The value of \<^verbatim>\<open>data.k\<close> when it is truthy (\<^verbatim>\<open>if (data.k)\<close>).\<close>

definition truthy_property :: "json \<Rightarrow> string \<Rightarrow> json option" where
  "truthy_property d k =
     (case property d k of
        None \<Rightarrow> None
      | Some v \<Rightarrow> if truthy v then Some v else None)"

text \<open>
  JavaScript's conversion to string, as applied by \<^verbatim>\<open>localStorage.setItem\<close> and by a
  template literal. The argument \<open>None\<close> is \<^verbatim>\<open>undefined\<close>.
\<close>

definition digit :: "nat \<Rightarrow> char" where
  "digit d = ''0123456789'' ! d"

fun digits :: "nat \<Rightarrow> string \<Rightarrow> string" where
  "digits n acc =
     (if n < 10 then digit n # acc
      else digits (n div 10) (digit (n mod 10) # acc))"

declare digits.simps [simp del]

definition decimal :: "int \<Rightarrow> string" where
  "decimal i = (if i < 0 then CHR ''-'' # digits (nat (- i)) [] else digits (nat i) [])"

fun string_of_json :: "json \<Rightarrow> string"
  and js_join :: "json list \<Rightarrow> string"
  and js_element :: "json \<Rightarrow> string" where
  "string_of_json JNull = ''null''"
| "string_of_json (JBool b) = (if b then ''true'' else ''false'')"
| "string_of_json (JNum n) = decimal n"
| "string_of_json (JStr s) = s"
| "string_of_json (JArr xs) = js_join xs"
| "string_of_json (JObj kvs) = ''[object Object]''"
| "js_join [] = []"
| "js_join [x] = js_element x"
| "js_join (x # y # ys) = js_element x @ '','' @ js_join (y # ys)"
| "js_element JNull = []"
| "js_element (JBool b) = string_of_json (JBool b)"
| "js_element (JNum n) = string_of_json (JNum n)"
| "js_element (JStr s) = string_of_json (JStr s)"
| "js_element (JArr xs) = string_of_json (JArr xs)"
| "js_element (JObj kvs) = string_of_json (JObj kvs)"

definition js_String :: "json option \<Rightarrow> string" where
  "js_String v = (case v of None \<Rightarrow> ''undefined'' | Some j \<Rightarrow> string_of_json j)"

text \<open>
  An HTTP response as axios hands it over: status code and parsed body. The outcome of
  one round trip is \<open>Some\<close> response, or \<open>None\<close> when no response was received
  (network failure, timeout): this is \<^verbatim>\<open>error.response\<close> being undefined.
\<close>

datatype response = Response (resp_status: nat) (resp_data: json)

text \<open>
  axios resolves a round trip exactly for the status codes 200 to 299 and rejects it
  otherwise, the rejection carrying the response if there is one.
\<close>

datatype round_trip = Resolved response | Rejected "response option"

definition settle :: "response option \<Rightarrow> round_trip" where
  "settle r =
     (case r of
        None \<Rightarrow> Rejected None
      | Some (Response s d) \<Rightarrow>
          if 200 \<le> s \<and> s < 300 then Resolved (Response s d) else Rejected r)"

section \<open>Normalised errors: \<^verbatim>\<open>ApiService.handleError\<close>\<close>

record ApiError =
  message :: json
  status :: nat
  details :: "json option"

text \<open>
  The argument is \<^verbatim>\<open>error.response\<close>. The field \<open>message\<close> is a JSON value: the
  code copies \<^verbatim>\<open>data.message\<close> (or \<^verbatim>\<open>detail\<close>, \<^verbatim>\<open>error\<close>) whatever its type.
\<close>

definition handleError :: "response option \<Rightarrow> ApiError" where
  "handleError r =
     (let apiError = \<lparr>message = JStr ''An unexpected error occurred'',
                      status = (case r of
                                  None \<Rightarrow> 500
                                | Some (Response s d) \<Rightarrow> if s \<noteq> 0 then s else 500),
                      details = None\<rparr>
      in case r of
           None \<Rightarrow> apiError
         | Some (Response s data) \<Rightarrow>
             if truthy data then
               (case data of
                  JStr t \<Rightarrow> apiError\<lparr>message := data\<rparr>
                | _ \<Rightarrow>
                  (case truthy_property data ''message'' of
                     Some m \<Rightarrow> apiError\<lparr>message := m\<rparr>
                   | None \<Rightarrow>
                  (case truthy_property data ''detail'' of
                     Some m \<Rightarrow> apiError\<lparr>message := m\<rparr>
                   | None \<Rightarrow>
                  (case truthy_property data ''error'' of
                     Some m \<Rightarrow> apiError\<lparr>message := m\<rparr>
                   | None \<Rightarrow> apiError))))
               \<lparr>details := Some data\<rparr>
             else apiError)"

section \<open>The credential store and the HTTP client\<close>

text \<open>
  A request configuration of axios. \<open>authorization\<close> is the \<^verbatim>\<open>Authorization\<close> header
  (\<open>None\<close> when the header is not set), \<open>retry\<close> the flag \<^verbatim>\<open>_retry\<close> the response
  interceptor puts on a configuration.
\<close>

record config =
  http_method :: string
  url :: string
  body :: "json option"
  authorization :: "string option"
  retry :: bool

text \<open>
  The part of the browser the service touches: the two \<^verbatim>\<open>localStorage\<close> entries
  (\<open>None\<close> is \<^verbatim>\<open>getItem\<close> returning null), \<^verbatim>\<open>window.location.href\<close>, the requests
  dispatched to the network so far (oldest first), and the calls of \<^verbatim>\<open>logout\<close> that
  were started without being awaited and are suspended at their POST, each with the
  refresh token it read.
\<close>

record world =
  access_token :: "string option"
  refresh_token :: "string option"
  location :: string
  sent :: "config list"
  pending_logouts :: "string list"

text \<open>
  \<^verbatim>\<open>localStorage.getItem(k)\<close> followed by the test \<^verbatim>\<open>if (token)\<close>: the stored
  string when there is one and it is not empty.
\<close>

definition truthy_item :: "string option \<Rightarrow> string option" where
  "truthy_item t =
     (case t of
        None \<Rightarrow> None
      | Some s \<Rightarrow> if s \<noteq> [] then Some s else None)"

text \<open>
  The server: it answers a request knowing every request dispatched so far, the
  current one last.
\<close>

type_synonym server = "config list \<Rightarrow> response option"

definition dispatch :: "world \<Rightarrow> config \<Rightarrow> world" where
  "dispatch w cfg = w\<lparr>sent := sent w @ [cfg]\<rparr>"

definition send :: "server \<Rightarrow> world \<Rightarrow> config \<Rightarrow> response option \<times> world" where
  "send srv w cfg = (srv (sent w @ [cfg]), dispatch w cfg)"

text \<open>The request interceptor (lines 36 to 45 of \<^verbatim>\<open>api.ts\<close>).\<close>

definition request_interceptor :: "world \<Rightarrow> config \<Rightarrow> config" where
  "request_interceptor w cfg =
     (case truthy_item (access_token w) of
        Some token \<Rightarrow> cfg\<lparr>authorization := Some (''Bearer '' @ token)\<rparr>
      | None \<Rightarrow> cfg)"

text \<open>
  \<^verbatim>\<open>ApiService.sendStreamMessage\<close> does not go through the client: it calls
  \<^verbatim>\<open>fetch\<close> with a header of its own, a template literal around \<^verbatim>\<open>getItem\<close>.
\<close>

definition sendStreamMessage_authorization :: "world \<Rightarrow> string" where
  "sendStreamMessage_authorization w =
     ''Bearer '' @ (case access_token w of None \<Rightarrow> ''null'' | Some token \<Rightarrow> token)"

text \<open>\<^verbatim>\<open>ApiService.refreshToken\<close> and the POST of \<^verbatim>\<open>ApiService.logout\<close>.\<close>

definition refreshToken_config :: "string \<Rightarrow> config" where
  "refreshToken_config refreshToken =
     \<lparr>http_method = ''post'', url = ''/auth/token/refresh/'',
      body = Some (JObj [(''refresh'', JStr refreshToken)]),
      authorization = None, retry = False\<rparr>"

definition logout_config :: "string \<Rightarrow> config" where
  "logout_config refreshToken =
     \<lparr>http_method = ''post'', url = ''/auth/logout/'',
      body = Some (JObj [(''refresh'', JStr refreshToken)]),
      authorization = None, retry = False\<rparr>"

subsection \<open>\<^verbatim>\<open>ApiService.logout\<close>, split at its await\<close>

definition remove_tokens :: "world \<Rightarrow> world" where
  "remove_tokens w = w\<lparr>access_token := None, refresh_token := None\<rparr>"

text \<open>
  \<^verbatim>\<open>this.logout()\<close> called without await, as the response interceptor does: the call
  runs up to its first await. With no refresh token stored there is no await and both
  tokens are removed at once; otherwise the call stays suspended at its POST.
\<close>

definition logout_detached :: "world \<Rightarrow> world" where
  "logout_detached w =
     (case truthy_item (refresh_token w) of
        Some refreshToken \<Rightarrow> w\<lparr>pending_logouts := pending_logouts w @ [refreshToken]\<rparr>
      | None \<Rightarrow> remove_tokens w)"

subsection \<open>The response interceptor, split at its awaits\<close>

text \<open>
  The error handler up to its first await (lines 51 to 58 and 70): either it rejects
  with the normalised error, or it calls \<^verbatim>\<open>this.refreshToken\<close> with the stored token,
  the request now marked \<^verbatim>\<open>_retry\<close>.
\<close>

datatype handler_step = Propagate ApiError | Refresh config string

definition response_rejected :: "world \<Rightarrow> config \<Rightarrow> response option \<Rightarrow> handler_step" where
  "response_rejected w originalRequest r =
     (if (case r of None \<Rightarrow> False | Some (Response s d) \<Rightarrow> s = 401) \<and> \<not> retry originalRequest
      then (case truthy_item (refresh_token w) of
              Some refreshToken \<Rightarrow> Refresh (originalRequest\<lparr>retry := True\<rparr>) refreshToken
            | None \<Rightarrow> Propagate (handleError r))
      else Propagate (handleError r))"

text \<open>
  After the refresh call resolved (lines 60 and 61): the new access token is stored and
  put on the original request. \<open>None\<close> is the TypeError of reading \<^verbatim>\<open>.access\<close> of
  a null body, which the catch block receives.
\<close>

definition refresh_resolved :: "world \<Rightarrow> config \<Rightarrow> response \<Rightarrow> (world \<times> config) option" where
  "refresh_resolved w originalRequest resp =
     (case resp_data resp of
        JNull \<Rightarrow> None
      | _ \<Rightarrow>
          (let access = js_String (property (resp_data resp) ''access'')
           in Some (w\<lparr>access_token := Some access\<rparr>,
                    originalRequest\<lparr>authorization := Some (''Bearer '' @ access)\<rparr>)))"

text \<open>The catch block (lines 65 and 66).\<close>

definition refresh_failed :: "world \<Rightarrow> world" where
  "refresh_failed w = (logout_detached w)\<lparr>location := ''/login''\<rparr>"

subsection \<open>A request through the client\<close>

text \<open>
  \<^verbatim>\<open>this.api(config)\<close>, every await run to completion before the caller goes on. The
  refresh call and the retry go through the same client, hence through both
  interceptors again. The first argument bounds the depth of these nested calls;
  \<open>None\<close> means the bound was reached before the call settled.
\<close>

fun api :: "server \<Rightarrow> nat \<Rightarrow> world \<Rightarrow> config \<Rightarrow> ((ApiError + response) \<times> world) option" where
  "api srv 0 w cfg = None"
| "api srv (Suc n) w cfg =
     (let originalRequest = request_interceptor w cfg;
          (r, w1) = send srv w originalRequest
      in case settle r of
           Resolved resp \<Rightarrow> Some (Inr resp, w1)
         | Rejected err \<Rightarrow>
             (case response_rejected w1 originalRequest err of
                Propagate e \<Rightarrow> Some (Inl e, w1)
              | Refresh marked refreshToken \<Rightarrow>
                  (case api srv n w1 (refreshToken_config refreshToken) of
                     None \<Rightarrow> None
                   | Some (Inl refreshError, w2) \<Rightarrow> Some (Inl (handleError err), refresh_failed w2)
                   | Some (Inr resp, w2) \<Rightarrow>
                       (case refresh_resolved w2 marked resp of
                          None \<Rightarrow> Some (Inl (handleError err), refresh_failed w2)
                        | Some (w3, again) \<Rightarrow> api srv n w3 again))))"

text \<open>
  \<^verbatim>\<open>ApiService.logout\<close> awaited by its caller. It catches whatever its POST rejects
  with, so it always resolves once the POST has settled.
\<close>

definition logout :: "server \<Rightarrow> nat \<Rightarrow> world \<Rightarrow> ((ApiError + unit) \<times> world) option" where
  "logout srv n w =
     (case truthy_item (refresh_token w) of
        Some refreshToken \<Rightarrow>
          (case api srv n w (logout_config refreshToken) of
             None \<Rightarrow> None
           | Some (outcome, w') \<Rightarrow> Some (Inr (), remove_tokens w'))
      | None \<Rightarrow> Some (Inr (), remove_tokens w))"

text \<open>
  The oldest suspended \<^verbatim>\<open>logout\<close> call runs on: its POST settles, then both tokens
  are removed. The POST is taken to leave when the call runs on; after a logout has
  been started the handler that started it, and its callers, dispatch nothing more.
\<close>

definition resume_logout :: "server \<Rightarrow> nat \<Rightarrow> world \<Rightarrow> world option" where
  "resume_logout srv n w =
     (case pending_logouts w of
        [] \<Rightarrow> Some w
      | refreshToken # rest \<Rightarrow>
          (case api srv n (w\<lparr>pending_logouts := rest\<rparr>) (logout_config refreshToken) of
             None \<Rightarrow> None
           | Some (outcome, w') \<Rightarrow> Some (remove_tokens w')))"

subsection \<open>Concurrent requests\<close>

text \<open>
  Several requests in flight at once. JavaScript runs one handler at a time, up to
  its next await; a call of \<^verbatim>\<open>this.api\<close> is therefore either settled or waiting for
  the response to the one request it has in flight, with the error handlers
  suspended at \<^verbatim>\<open>await this.refreshToken(...)\<close> beneath it, innermost first. Each
  such frame holds the marked original request and the original error.
\<close>

datatype task =
    InFlight config "(config \<times> response option) list"
  | Settled "ApiError + response"

definition start :: "world \<Rightarrow> config \<Rightarrow> (config \<times> response option) list \<Rightarrow> world \<times> task" where
  "start w cfg frames =
     (let request = request_interceptor w cfg
      in (dispatch w request, InFlight request frames))"

text \<open>
  A call rejects with \<open>e\<close>: a handler suspended at the refresh call catches it
  (lines 64 to 67), then rejects with its own original error (line 70).
\<close>

fun rejects :: "world \<Rightarrow> (config \<times> response option) list \<Rightarrow> ApiError \<Rightarrow> world \<times> task" where
  "rejects w [] e = (w, Settled (Inl e))"
| "rejects w ((marked, err) # frames) e = rejects (refresh_failed w) frames (handleError err)"

text \<open>
  A call resolves: a handler suspended at the refresh call stores the token and
  re-issues its original request (lines 60 to 62), whose outcome is then its own.
\<close>

fun resolves :: "world \<Rightarrow> (config \<times> response option) list \<Rightarrow> response \<Rightarrow> world \<times> task" where
  "resolves w [] resp = (w, Settled (Inr resp))"
| "resolves w ((marked, err) # frames) resp =
     (case refresh_resolved w marked resp of
        None \<Rightarrow> rejects (refresh_failed w) frames (handleError err)
      | Some (w3, again) \<Rightarrow> start w3 again frames)"

text \<open>The network answers the request a task has in flight.\<close>

fun on_response :: "world \<Rightarrow> task \<Rightarrow> response option \<Rightarrow> world \<times> task" where
  "on_response w (Settled outcome) r = (w, Settled outcome)"
| "on_response w (InFlight originalRequest frames) r =
     (case settle r of
        Resolved resp \<Rightarrow> resolves w frames resp
      | Rejected err \<Rightarrow>
          (case response_rejected w originalRequest err of
             Propagate e \<Rightarrow> rejects w frames e
           | Refresh marked refreshToken \<Rightarrow>
               start w (refreshToken_config refreshToken) ((marked, err) # frames)))"

text \<open>
  The event loop: the response to the request of task \<open>i\<close> arrives. A run is a list
  of such arrivals, in the order the network delivers them.
\<close>

definition deliver :: "world \<times> task list \<Rightarrow> nat \<times> response option \<Rightarrow> world \<times> task list" where
  "deliver s ev =
     (case s of (w, tasks) \<Rightarrow>
        (case ev of (i, r) \<Rightarrow>
           if i < length tasks
           then (case on_response w (tasks ! i) r of (w', t) \<Rightarrow> (w', tasks[i := t]))
           else (w, tasks)))"

definition run :: "world \<times> task list \<Rightarrow> (nat \<times> response option) list \<Rightarrow> world \<times> task list" where
  "run s evs = foldl deliver s evs"

text \<open>
  One task alone, the server answering the request in flight (the last one
  dispatched) at each step; \<open>None\<close> when the task has not settled after the given
  number of responses.
\<close>

fun settle_task :: "server \<Rightarrow> nat \<Rightarrow> world \<times> task \<Rightarrow> ((ApiError + response) \<times> world) option" where
  "settle_task srv k (w, Settled outcome) = Some (outcome, w)"
| "settle_task srv 0 (w, InFlight c frames) = None"
| "settle_task srv (Suc k) (w, InFlight c frames) =
     settle_task srv k (on_response w (InFlight c frames) (srv (sent w)))"

text \<open>The number of refresh calls dispatched so far.\<close>

definition refresh_calls :: "world \<Rightarrow> nat" where
  "refresh_calls w = length (filter (\<lambda>c. url c = ''/auth/token/refresh/'') (sent w))"

section \<open>The query cache and the mutations\<close>

text \<open>
  The query cache of react-query, as far as the hooks use it: each cached query has
  its key, its data and the flag \<^verbatim>\<open>isInvalidated\<close> that makes the next read fetch
  again. \<^verbatim>\<open>invalidateQueries(key)\<close> marks every query whose key begins with the given
  key (the library's partial matching); \<^verbatim>\<open>clear()\<close> drops all queries. Toast
  notifications are not modelled.
\<close>

datatype key_part = KStr string | KNum int

record query =
  queryKey :: "key_part list"
  data :: "json option"
  isInvalidated :: bool

record client =
  queries :: "query list"
  user :: "json option"

fun partialMatchKey :: "key_part list \<Rightarrow> key_part list \<Rightarrow> bool" where
  "partialMatchKey a [] = True"
| "partialMatchKey [] (y # ys) = False"
| "partialMatchKey (x # xs) (y # ys) = (x = y \<and> partialMatchKey xs ys)"

definition invalidateQueries :: "key_part list \<Rightarrow> client \<Rightarrow> client" where
  "invalidateQueries k c =
     c\<lparr>queries := map (\<lambda>q. if partialMatchKey (queryKey q) k then q\<lparr>isInvalidated := True\<rparr> else q)
                         (queries c)\<rparr>"

definition clear :: "client \<Rightarrow> client" where
  "clear c = c\<lparr>queries := []\<rparr>"

text \<open>
  Whether the cache holds a query under the key, and whether it holds one that the
  next read will fetch again.
\<close>

definition cached :: "client \<Rightarrow> key_part list \<Rightarrow> bool" where
  "cached c k = (\<exists>q \<in> set (queries c). queryKey q = k)"

definition invalidated :: "client \<Rightarrow> key_part list \<Rightarrow> bool" where
  "invalidated c k = (\<exists>q \<in> set (queries c). queryKey q = k \<and> isInvalidated q)"

text \<open>
  \<^verbatim>\<open>mutateAsync\<close> of a mutation built by \<^verbatim>\<open>useMutation\<close>: the mutation function
  runs, then \<^verbatim>\<open>onSuccess\<close> or \<^verbatim>\<open>onError\<close>, and the outcome goes to the caller.
\<close>

definition mutateAsync ::
  "(server \<Rightarrow> nat \<Rightarrow> world \<Rightarrow> ((ApiError + 'a) \<times> world) option) \<Rightarrow>
   ('a \<Rightarrow> client \<Rightarrow> client) \<Rightarrow> (ApiError \<Rightarrow> client \<Rightarrow> client) \<Rightarrow>
   server \<Rightarrow> nat \<Rightarrow> world \<times> client \<Rightarrow> ((ApiError + 'a) \<times> world \<times> client) option" where
  "mutateAsync mutationFn onSuccess onError srv n s =
     (case s of (w, c) \<Rightarrow>
        (case mutationFn srv n w of
           None \<Rightarrow> None
         | Some (Inl e, w') \<Rightarrow> Some (Inl e, w', onError e c)
         | Some (Inr v, w') \<Rightarrow> Some (Inr v, w', onSuccess v c)))"

text \<open>
  The service methods behind the mutations of \<^verbatim>\<open>useLLM\<close>. A conversation id is put
  into the path in decimal.
\<close>

definition returning :: "('a \<Rightarrow> 'b) \<Rightarrow> ((ApiError + 'a) \<times> world) option \<Rightarrow> ((ApiError + 'b) \<times> world) option" where
  "returning f x =
     (case x of
        None \<Rightarrow> None
      | Some (Inl e, w) \<Rightarrow> Some (Inl e, w)
      | Some (Inr v, w) \<Rightarrow> Some (Inr (f v), w))"

definition request :: "string \<Rightarrow> string \<Rightarrow> json option \<Rightarrow> config" where
  "request m path payload =
     \<lparr>http_method = m, url = path, body = payload, authorization = None, retry = False\<rparr>"

definition createConversation :: "json \<Rightarrow> server \<Rightarrow> nat \<Rightarrow> world \<Rightarrow> ((ApiError + json) \<times> world) option" where
  "createConversation payload srv n w =
     returning resp_data (api srv n w (request ''post'' ''/llm/conversations/'' (Some payload)))"

definition updateConversation :: "int \<Rightarrow> json \<Rightarrow> server \<Rightarrow> nat \<Rightarrow> world \<Rightarrow> ((ApiError + json) \<times> world) option" where
  "updateConversation conversation_id payload srv n w =
     returning resp_data
       (api srv n w (request ''patch'' (''/llm/conversations/'' @ decimal conversation_id @ ''/'')
                       (Some payload)))"

definition deleteConversation :: "int \<Rightarrow> server \<Rightarrow> nat \<Rightarrow> world \<Rightarrow> ((ApiError + unit) \<times> world) option" where
  "deleteConversation conversation_id srv n w =
     returning (\<lambda>resp. ())
       (api srv n w (request ''delete'' (''/llm/conversations/'' @ decimal conversation_id @ ''/delete/'')
                       None))"

definition archiveConversation :: "int \<Rightarrow> server \<Rightarrow> nat \<Rightarrow> world \<Rightarrow> ((ApiError + unit) \<times> world) option" where
  "archiveConversation conversation_id srv n w =
     returning (\<lambda>resp. ())
       (api srv n w (request ''post'' (''/llm/conversations/'' @ decimal conversation_id @ ''/archive/'')
                       None))"

definition unarchiveConversation :: "int \<Rightarrow> server \<Rightarrow> nat \<Rightarrow> world \<Rightarrow> ((ApiError + unit) \<times> world) option" where
  "unarchiveConversation conversation_id srv n w =
     returning (\<lambda>resp. ())
       (api srv n w (request ''post'' (''/llm/conversations/'' @ decimal conversation_id @ ''/unarchive/'')
                       None))"

definition sendMessage :: "json \<Rightarrow> server \<Rightarrow> nat \<Rightarrow> world \<Rightarrow> ((ApiError + json) \<times> world) option" where
  "sendMessage chatRequest srv n w =
     returning resp_data (api srv n w (request ''post'' ''/llm/chat/'' (Some chatRequest)))"

definition updateUserPreferences :: "json \<Rightarrow> server \<Rightarrow> nat \<Rightarrow> world \<Rightarrow> ((ApiError + json) \<times> world) option" where
  "updateUserPreferences payload srv n w =
     returning resp_data (api srv n w (request ''put'' ''/llm/preferences/update/'' (Some payload)))"

text \<open>
  The mutations of \<^verbatim>\<open>useLLM\<close> that have an \<^verbatim>\<open>onSuccess\<close> (\<^verbatim>\<open>testModelMutation\<close> and
  \<^verbatim>\<open>searchConversationsMutation\<close> have none and leave the cache alone).
\<close>

definition createConversationMutation ::
  "json \<Rightarrow> server \<Rightarrow> nat \<Rightarrow> world \<times> client \<Rightarrow> ((ApiError + json) \<times> world \<times> client) option" where
  "createConversationMutation payload =
     mutateAsync (createConversation payload)
       (\<lambda>v. invalidateQueries [KStr ''conversations''])
       (\<lambda>error c. c)"

definition updateConversationMutation ::
  "int \<Rightarrow> json \<Rightarrow> server \<Rightarrow> nat \<Rightarrow> world \<times> client \<Rightarrow> ((ApiError + json) \<times> world \<times> client) option" where
  "updateConversationMutation conversation_id payload =
     mutateAsync (updateConversation conversation_id payload)
       (\<lambda>v. invalidateQueries [KStr ''conversations''])
       (\<lambda>error c. c)"

definition deleteConversationMutation ::
  "int \<Rightarrow> server \<Rightarrow> nat \<Rightarrow> world \<times> client \<Rightarrow> ((ApiError + unit) \<times> world \<times> client) option" where
  "deleteConversationMutation conversation_id =
     mutateAsync (deleteConversation conversation_id)
       (\<lambda>v. invalidateQueries [KStr ''conversations''])
       (\<lambda>error c. c)"

definition archiveConversationMutation ::
  "int \<Rightarrow> server \<Rightarrow> nat \<Rightarrow> world \<times> client \<Rightarrow> ((ApiError + unit) \<times> world \<times> client) option" where
  "archiveConversationMutation conversation_id =
     mutateAsync (archiveConversation conversation_id)
       (\<lambda>v. invalidateQueries [KStr ''conversations''])
       (\<lambda>error c. c)"

definition unarchiveConversationMutation ::
  "int \<Rightarrow> server \<Rightarrow> nat \<Rightarrow> world \<times> client \<Rightarrow> ((ApiError + unit) \<times> world \<times> client) option" where
  "unarchiveConversationMutation conversation_id =
     mutateAsync (unarchiveConversation conversation_id)
       (\<lambda>v. invalidateQueries [KStr ''conversations''])
       (\<lambda>error c. c)"

definition sendMessageMutation ::
  "json \<Rightarrow> server \<Rightarrow> nat \<Rightarrow> world \<times> client \<Rightarrow> ((ApiError + json) \<times> world \<times> client) option" where
  "sendMessageMutation chatRequest =
     mutateAsync (sendMessage chatRequest)
       (\<lambda>v. invalidateQueries [KStr ''conversations''])
       (\<lambda>error c. c)"

definition updatePreferencesMutation ::
  "json \<Rightarrow> server \<Rightarrow> nat \<Rightarrow> world \<times> client \<Rightarrow> ((ApiError + json) \<times> world \<times> client) option" where
  "updatePreferencesMutation payload =
     mutateAsync (updateUserPreferences payload)
       (\<lambda>v. invalidateQueries [KStr ''preferences''])
       (\<lambda>error c. c)"

text \<open>
  \<^verbatim>\<open>refreshConversation\<close> of \<^verbatim>\<open>useConversation\<close>, the one place where the key of a
  single conversation is invalidated. No mutation calls it.
\<close>

definition refreshConversation :: "int \<Rightarrow> client \<Rightarrow> client" where
  "refreshConversation conversation_id c =
     invalidateQueries [KStr ''messages'', KNum conversation_id]
       (invalidateQueries [KStr ''conversation'', KNum conversation_id] c)"

text \<open>The logout mutation of \<^verbatim>\<open>useAuth\<close>.\<close>

definition logoutMutation ::
  "server \<Rightarrow> nat \<Rightarrow> world \<times> client \<Rightarrow> ((ApiError + unit) \<times> world \<times> client) option" where
  "logoutMutation =
     mutateAsync logout
       (\<lambda>v c. clear (c\<lparr>user := None\<rparr>))
       (\<lambda>error c. clear (c\<lparr>user := None\<rparr>))"

section \<open>The specification's wording of the normalised error\<close>

text \<open>
  The normalised error as the specification words it, to be compared with
  \<open>handleError\<close>: the message is the body if that is a string, else its
  \<^verbatim>\<open>message\<close> field, else \<^verbatim>\<open>detail\<close>, else \<^verbatim>\<open>error\<close>, else the generic message;
  the details are the raw body.
\<close>

definition spec_message :: "json \<Rightarrow> json" where
  "spec_message raw =
     (case raw of
        JStr t \<Rightarrow> raw
      | _ \<Rightarrow>
        (case property raw ''message'' of
           Some m \<Rightarrow> m
         | None \<Rightarrow>
        (case property raw ''detail'' of
           Some m \<Rightarrow> m
         | None \<Rightarrow>
        (case property raw ''error'' of
           Some m \<Rightarrow> m
         | None \<Rightarrow> JStr ''An unexpected error occurred''))))"

definition spec_HttpError :: "nat \<Rightarrow> json \<Rightarrow> ApiError" where
  "spec_HttpError s raw = \<lparr>message = spec_message raw, status = s, details = Some raw\<rparr>"

text \<open>The first of the listed fields whose value is truthy.\<close>

fun first_truthy :: "json \<Rightarrow> string list \<Rightarrow> json option" where
  "first_truthy raw [] = None"
| "first_truthy raw (k # ks) =
     (case truthy_property raw k of
        Some v \<Rightarrow> Some v
      | None \<Rightarrow> first_truthy raw ks)"

section \<open>Example inputs\<close>

definition example_world :: world where
  "example_world =
     \<lparr>access_token = Some ''expired'', refresh_token = Some ''r1'', location = ''/chat'',
      sent = [], pending_logouts = []\<rparr>"

definition getConversations_config :: config where
  "getConversations_config =
     \<lparr>http_method = ''get'', url = ''/llm/conversations/'', body = None,
      authorization = None, retry = False\<rparr>"

definition getModels_config :: config where
  "getModels_config =
     \<lparr>http_method = ''get'', url = ''/llm/models/'', body = None,
      authorization = None, retry = False\<rparr>"

text \<open>A server for which both tokens are invalid: it answers every request with 401.\<close>

definition server_rejecting_all :: server where
  "server_rejecting_all log =
     Some (Response 401 (JObj [(''detail'', JStr ''Token is invalid or expired'')]))"

text \<open>
  A server for which the access token has expired and the refresh token is valid: it
  issues the access token \<^verbatim>\<open>fresh\<close> and accepts requests bearing it.
\<close>

definition server_accepting_fresh :: server where
  "server_accepting_fresh log =
     (if url (last log) = ''/auth/token/refresh/''
      then Some (Response 200 (JObj [(''access'', JStr ''fresh'')]))
      else if authorization (last log) = Some ''Bearer fresh''
      then Some (Response 200 (JArr []))
      else Some (Response 401 (JObj [(''detail'', JStr ''Token is invalid or expired'')])))"

text \<open>
  A server that refuses the refresh with 400 and the logout with 500, and answers 401
  to everything else.
\<close>

definition server_refusing_refresh :: server where
  "server_refusing_refresh log =
     (if url (last log) = ''/auth/token/refresh/''
      then Some (Response 400 (JObj [(''detail'', JStr ''Token is blacklisted'')]))
      else if url (last log) = ''/auth/logout/''
      then Some (Response 500 (JStr []))
      else Some (Response 401 (JObj [(''detail'', JStr ''Token is invalid or expired'')])))"

text \<open>A server that answers every request with 200 and an empty object.\<close>

definition server_accepting_all :: server where
  "server_accepting_all log = Some (Response 200 (JObj []))"

text \<open>A server that answers every request with 503 and an empty body.\<close>

definition server_unavailable :: server where
  "server_unavailable log = Some (Response 503 (JStr []))"

definition example_client :: client where
  "example_client =
     \<lparr>queries =
        [\<lparr>queryKey = [KStr ''conversations''], data = Some (JArr []), isInvalidated = False\<rparr>,
         \<lparr>queryKey = [KStr ''conversation'', KNum 7], data = Some (JObj []), isInvalidated = False\<rparr>],
      user = Some (JObj [(''id'', JNum 1)])\<rparr>"

text \<open>
  Two requests dispatched together, both answered 401; then the refresh call of the
  first is answered 200 and that of the second 400, and the retry of the first is
  answered 200.
\<close>

definition two_requests :: "world \<times> task list" where
  "two_requests =
     (case start example_world getConversations_config [] of (w1, t1) \<Rightarrow>
        (case start w1 getModels_config [] of (w2, t2) \<Rightarrow> (w2, [t1, t2])))"

definition two_requests_arrivals :: "(nat \<times> response option) list" where
  "two_requests_arrivals =
     [(0, Some (Response 401 JNull)),
      (1, Some (Response 401 JNull)),
      (0, Some (Response 200 (JObj [(''access'', JStr ''fresh'')]))),
      (1, Some (Response 400 (JObj [(''detail'', JStr ''Token is blacklisted'')]))),
      (0, Some (Response 200 (JArr [])))]"

section \<open>Basic facts about the client\<close>

lemma dispatch_simps [simp]:
  "access_token (dispatch w c) = access_token w"
  "refresh_token (dispatch w c) = refresh_token w"
  "location (dispatch w c) = location w"
  "pending_logouts (dispatch w c) = pending_logouts w"
  "sent (dispatch w c) = sent w @ [c]"
  by (simp_all add: dispatch_def)

lemma request_interceptor_simps [simp]:
  "retry (request_interceptor w c) = retry c"
  "url (request_interceptor w c) = url c"
  "http_method (request_interceptor w c) = http_method c"
  "body (request_interceptor w c) = body c"
  by (simp_all add: request_interceptor_def split: option.splits)

lemma refresh_failed_sent [simp]: "sent (refresh_failed w) = sent w"
  by (simp add: refresh_failed_def logout_detached_def remove_tokens_def split: option.splits)

lemma refresh_failed_location [simp]: "location (refresh_failed w) = ''/login''"
  by (simp add: refresh_failed_def)

lemma settle_Rejected: "settle r = Rejected err \<Longrightarrow> err = r"
  by (auto simp: settle_def split: option.splits response.splits if_splits)

lemma settle_401 [simp]: "settle (Some (Response 401 d)) = Rejected (Some (Response 401 d))"
  by (simp add: settle_def)

lemma response_rejected_retried:
  "retry c \<Longrightarrow> response_rejected w c err = Propagate (handleError err)"
  by (simp add: response_rejected_def)

lemma response_rejected_other_status:
  "\<forall>d. err \<noteq> Some (Response 401 d) \<Longrightarrow> response_rejected w c err = Propagate (handleError err)"
  by (auto simp: response_rejected_def split: option.splits response.splits)

lemma response_rejected_no_refresh_token:
  "truthy_item (refresh_token w) = None \<Longrightarrow> response_rejected w c err = Propagate (handleError err)"
  by (simp add: response_rejected_def)

lemma response_rejected_Refresh:
  "\<not> retry c \<Longrightarrow> truthy_item (refresh_token w) = Some rt \<Longrightarrow>
   response_rejected w c (Some (Response 401 d)) = Refresh (c\<lparr>retry := True\<rparr>) rt"
  by (simp add: response_rejected_def)

lemma refresh_resolved_typed:
  "property (resp_data resp) ''access'' = Some (JStr access) \<Longrightarrow>
   refresh_resolved w marked resp =
     Some (w\<lparr>access_token := Some access\<rparr>, marked\<lparr>authorization := Some (''Bearer '' @ access)\<rparr>)"
  by (cases "resp_data resp") (simp_all add: refresh_resolved_def js_String_def)

lemma refresh_resolved_frame:
  "refresh_resolved w marked resp = Some (w3, again) \<Longrightarrow>
   refresh_token w3 = refresh_token w \<and> location w3 = location w \<and>
   pending_logouts w3 = pending_logouts w \<and> sent w3 = sent w"
  by (auto simp: refresh_resolved_def Let_def split: json.splits)

lemma request_interceptor_again:
  "request_interceptor (w\<lparr>access_token := Some access\<rparr>) (c\<lparr>authorization := Some (''Bearer '' @ access)\<rparr>)
     = c\<lparr>authorization := Some (''Bearer '' @ access)\<rparr>"
  by (simp add: request_interceptor_def truthy_item_def)

subsection \<open>One round of \<open>api\<close>, by the way the first response is handled\<close>

lemma api_Resolved:
  "settle (srv (sent w @ [request_interceptor w cfg])) = Resolved resp \<Longrightarrow>
   api srv (Suc n) w cfg = Some (Inr resp, dispatch w (request_interceptor w cfg))"
  by (simp add: send_def)

lemma api_Propagate:
  "settle (srv (sent w @ [request_interceptor w cfg])) = Rejected err \<Longrightarrow>
   response_rejected (dispatch w (request_interceptor w cfg)) (request_interceptor w cfg) err = Propagate e \<Longrightarrow>
   api srv (Suc n) w cfg = Some (Inl e, dispatch w (request_interceptor w cfg))"
  by (simp add: send_def)

lemma api_retried:
  "retry cfg \<Longrightarrow>
   api srv (Suc n) w cfg =
     Some (case settle (srv (sent w @ [request_interceptor w cfg])) of
             Resolved resp \<Rightarrow> Inr resp
           | Rejected err \<Rightarrow> Inl (handleError err),
           dispatch w (request_interceptor w cfg))"
  by (simp add: send_def response_rejected_retried split: round_trip.splits)

lemma api_Refresh:
  assumes "settle (srv (sent w @ [request_interceptor w cfg])) = Rejected err"
    and "response_rejected (dispatch w (request_interceptor w cfg)) (request_interceptor w cfg) err
           = Refresh marked rt"
    and "api srv n (dispatch w (request_interceptor w cfg)) (refreshToken_config rt) = Some (Inr resp, w2)"
    and "refresh_resolved w2 marked resp = Some (w3, again)"
  shows "api srv (Suc n) w cfg = api srv n w3 again"
  using assms by (simp add: send_def)

lemma api_refresh_rejected:
  assumes "settle (srv (sent w @ [request_interceptor w cfg])) = Rejected err"
    and "response_rejected (dispatch w (request_interceptor w cfg)) (request_interceptor w cfg) err
           = Refresh marked rt"
    and "api srv n (dispatch w (request_interceptor w cfg)) (refreshToken_config rt) = Some (Inl e, w2)"
  shows "api srv (Suc n) w cfg = Some (Inl (handleError err), refresh_failed w2)"
  using assms by (simp add: send_def)

lemma api_refresh_unreadable:
  assumes "settle (srv (sent w @ [request_interceptor w cfg])) = Rejected err"
    and "response_rejected (dispatch w (request_interceptor w cfg)) (request_interceptor w cfg) err
           = Refresh marked rt"
    and "api srv n (dispatch w (request_interceptor w cfg)) (refreshToken_config rt) = Some (Inr resp, w2)"
    and "refresh_resolved w2 marked resp = None"
  shows "api srv (Suc n) w cfg = Some (Inl (handleError err), refresh_failed w2)"
  using assms by (simp add: send_def)

lemma api_refresh_unsettled:
  assumes "settle (srv (sent w @ [request_interceptor w cfg])) = Rejected err"
    and "response_rejected (dispatch w (request_interceptor w cfg)) (request_interceptor w cfg) err
           = Refresh marked rt"
    and "api srv n (dispatch w (request_interceptor w cfg)) (refreshToken_config rt) = None"
  shows "api srv (Suc n) w cfg = None"
  using assms by (simp add: send_def)

declare api.simps(2) [simp del]

text \<open>
  The cases of a settled call: it resolved at once, it rejected at once, or the
  handler called for a refresh, which rejected, resolved unreadably, or resolved and
  was followed by the retry.
\<close>

lemma api_settled_cases:
  assumes "api srv (Suc n) w cfg = Some (outcome, w')"
  obtains
    (resolved) resp where
      "settle (srv (sent w @ [request_interceptor w cfg])) = Resolved resp"
      "outcome = Inr resp" "w' = dispatch w (request_interceptor w cfg)"
  | (propagated) err e where
      "settle (srv (sent w @ [request_interceptor w cfg])) = Rejected err"
      "response_rejected (dispatch w (request_interceptor w cfg)) (request_interceptor w cfg) err = Propagate e"
      "outcome = Inl e" "w' = dispatch w (request_interceptor w cfg)"
  | (refresh_rejected) err marked rt e w2 where
      "settle (srv (sent w @ [request_interceptor w cfg])) = Rejected err"
      "response_rejected (dispatch w (request_interceptor w cfg)) (request_interceptor w cfg) err = Refresh marked rt"
      "api srv n (dispatch w (request_interceptor w cfg)) (refreshToken_config rt) = Some (Inl e, w2)"
      "outcome = Inl (handleError err)" "w' = refresh_failed w2"
  | (refresh_unreadable) err marked rt resp w2 where
      "settle (srv (sent w @ [request_interceptor w cfg])) = Rejected err"
      "response_rejected (dispatch w (request_interceptor w cfg)) (request_interceptor w cfg) err = Refresh marked rt"
      "api srv n (dispatch w (request_interceptor w cfg)) (refreshToken_config rt) = Some (Inr resp, w2)"
      "refresh_resolved w2 marked resp = None"
      "outcome = Inl (handleError err)" "w' = refresh_failed w2"
  | (retried) err marked rt resp w2 w3 again where
      "settle (srv (sent w @ [request_interceptor w cfg])) = Rejected err"
      "response_rejected (dispatch w (request_interceptor w cfg)) (request_interceptor w cfg) err = Refresh marked rt"
      "api srv n (dispatch w (request_interceptor w cfg)) (refreshToken_config rt) = Some (Inr resp, w2)"
      "refresh_resolved w2 marked resp = Some (w3, again)"
      "api srv n w3 again = Some (outcome, w')"
proof (cases "settle (srv (sent w @ [request_interceptor w cfg]))")
  case (Resolved resp)
  from assms api_Resolved[where srv = srv and w = w and cfg = cfg and n = n, OF Resolved]
  have "outcome = Inr resp" "w' = dispatch w (request_interceptor w cfg)" by simp_all
  with Resolved show ?thesis by (rule resolved)
next
  case (Rejected err)
  show ?thesis
  proof (cases "response_rejected (dispatch w (request_interceptor w cfg)) (request_interceptor w cfg) err")
    case (Propagate e)
    from assms api_Propagate[where srv = srv and w = w and cfg = cfg and n = n, OF Rejected Propagate]
    have "outcome = Inl e" "w' = dispatch w (request_interceptor w cfg)" by simp_all
    with Rejected Propagate show ?thesis by (rule propagated)
  next
    case (Refresh marked rt)
    show ?thesis
    proof (cases "api srv n (dispatch w (request_interceptor w cfg)) (refreshToken_config rt)")
      case None
      from assms api_refresh_unsettled[where srv = srv and w = w and cfg = cfg and n = n, OF Rejected Refresh None] show ?thesis by simp
    next
      case (Some p)
      obtain r2 w2 where p: "p = (r2, w2)" by (cases p)
      show ?thesis
      proof (cases r2)
        case (Inl e)
        with Some p have call: "api srv n (dispatch w (request_interceptor w cfg)) (refreshToken_config rt)
            = Some (Inl e, w2)" by simp
        from assms api_refresh_rejected[where srv = srv and w = w and cfg = cfg and n = n, OF Rejected Refresh call]
        have "outcome = Inl (handleError err)" "w' = refresh_failed w2" by simp_all
        with Rejected Refresh call show ?thesis by (rule refresh_rejected)
      next
        case (Inr resp)
        with Some p have call: "api srv n (dispatch w (request_interceptor w cfg)) (refreshToken_config rt)
            = Some (Inr resp, w2)" by simp
        show ?thesis
        proof (cases "refresh_resolved w2 marked resp")
          case None
          from assms api_refresh_unreadable[where srv = srv and w = w and cfg = cfg and n = n, OF Rejected Refresh call None]
          have "outcome = Inl (handleError err)" "w' = refresh_failed w2" by simp_all
          with Rejected Refresh call None show ?thesis by (rule refresh_unreadable)
        next
          case (Some q)
          obtain w3 again where q: "q = (w3, again)" by (cases q)
          with Some have res: "refresh_resolved w2 marked resp = Some (w3, again)" by simp
          from assms api_Refresh[where srv = srv and w = w and cfg = cfg and n = n, OF Rejected Refresh call res]
          have "api srv n w3 again = Some (outcome, w')" by simp
          with Rejected Refresh call res show ?thesis by (rule retried)
        qed
      qed
    qed
  qed
qed

subsection \<open>What a settled call leaves behind\<close>

text \<open>Every call that settles has dispatched its own request first.\<close>

lemma api_sent_prefix:
  "api srv n w cfg = Some (outcome, w') \<Longrightarrow>
   \<exists>rest. sent w' = sent w @ request_interceptor w cfg # rest"
proof (induction n arbitrary: w cfg outcome w')
  case 0
  then show ?case by simp
next
  case (Suc n)
  from Suc.prems show ?case
  proof (cases rule: api_settled_cases)
    case (retried err marked rt resp w2 w3 again)
    from Suc.IH[OF retried(3)] obtain rest2 where
      "sent w2 = sent (dispatch w (request_interceptor w cfg)) @
                 request_interceptor (dispatch w (request_interceptor w cfg)) (refreshToken_config rt) # rest2"
      by auto
    moreover from refresh_resolved_frame[OF retried(4)] have "sent w3 = sent w2" by simp
    moreover from Suc.IH[OF retried(5)] obtain rest3 where
      "sent w' = sent w3 @ request_interceptor w3 again # rest3" by auto
    ultimately show ?thesis by simp
  next
    case (refresh_rejected err marked rt e w2)
    from Suc.IH[OF refresh_rejected(3)] refresh_rejected(5) show ?thesis by auto
  next
    case (refresh_unreadable err marked rt resp w2)
    from Suc.IH[OF refresh_unreadable(3)] refresh_unreadable(6) show ?thesis by auto
  qed auto
qed

text \<open>
  A call that resolves has not gone through the catch block: the refresh token, the
  location and the suspended logout calls are as before.
\<close>

lemma api_resolved_frame:
  "api srv n w cfg = Some (Inr resp, w') \<Longrightarrow>
   refresh_token w' = refresh_token w \<and> location w' = location w \<and>
   pending_logouts w' = pending_logouts w"
proof (induction n arbitrary: w cfg resp w')
  case 0
  then show ?case by simp
next
  case (Suc n)
  from Suc.prems show ?case
  proof (cases rule: api_settled_cases)
    case (retried err marked rt r2 w2 w3 again)
    from Suc.IH[OF retried(3)] Suc.IH[OF retried(5)] refresh_resolved_frame[OF retried(4)]
    show ?thesis by simp
  qed auto
qed

text \<open>
  Whatever a call does, it never replaces the refresh token: when the call has
  settled the refresh token is the one stored before, or both tokens are gone.
\<close>

lemma refresh_failed_store:
  "(refresh_token (refresh_failed w) = refresh_token w \<and> access_token (refresh_failed w) = access_token w)
   \<or> (refresh_token (refresh_failed w) = None \<and> access_token (refresh_failed w) = None)"
  by (simp add: refresh_failed_def logout_detached_def remove_tokens_def split: option.splits)

lemma api_refresh_token_frame:
  "api srv n w cfg = Some (outcome, w') \<Longrightarrow>
   refresh_token w' = refresh_token w \<or> (refresh_token w' = None \<and> access_token w' = None)"
proof (induction n arbitrary: w cfg outcome w')
  case 0
  then show ?case by simp
next
  case (Suc n)
  from Suc.prems show ?case
  proof (cases rule: api_settled_cases)
    case (refresh_rejected err marked rt e w2)
    from Suc.IH[OF refresh_rejected(3)] refresh_failed_store[of w2] refresh_rejected(5)
    show ?thesis by auto
  next
    case (refresh_unreadable err marked rt resp w2)
    from api_resolved_frame[OF refresh_unreadable(3)] refresh_failed_store[of w2] refresh_unreadable(6)
    show ?thesis by auto
  next
    case (retried err marked rt resp w2 w3 again)
    from api_resolved_frame[OF retried(3)] refresh_resolved_frame[OF retried(4)] Suc.IH[OF retried(5)]
    show ?thesis by auto
  qed auto
qed

text \<open>
  The refresh path as a whole: the original request is answered 401, a refresh
  token is stored, and the refresh call resolves with a body of the declared type
  \<^verbatim>\<open>{ access: string }\<close>.
\<close>

lemma api_refreshed:
  assumes "srv (sent w @ [request_interceptor w cfg]) = Some (Response 401 d)"
    and "\<not> retry cfg"
    and "refresh_token w = Some refreshToken" and "refreshToken \<noteq> []"
    and "api srv n (dispatch w (request_interceptor w cfg)) (refreshToken_config refreshToken)
           = Some (Inr resp, w2)"
    and "property (resp_data resp) ''access'' = Some (JStr access)"
  shows "api srv (Suc n) w cfg =
           Some (case settle (srv (sent w2 @ [(request_interceptor w cfg)\<lparr>retry := True, authorization := Some (''Bearer '' @ access)\<rparr>])) of
                   Resolved r \<Rightarrow> Inr r
                 | Rejected e \<Rightarrow> Inl (handleError e),
                 dispatch (w2\<lparr>access_token := Some access\<rparr>)
                   ((request_interceptor w cfg)\<lparr>retry := True, authorization := Some (''Bearer '' @ access)\<rparr>))"
proof -
  let ?req = "request_interceptor w cfg"
  let ?again = "?req\<lparr>retry := True, authorization := Some (''Bearer '' @ access)\<rparr>"
  let ?w3 = "w2\<lparr>access_token := Some access\<rparr>"
  have rej: "settle (srv (sent w @ [?req])) = Rejected (Some (Response 401 d))"
    using assms(1) by simp
  have "truthy_item (refresh_token (dispatch w ?req)) = Some refreshToken"
    using assms(3,4) by (simp add: truthy_item_def)
  with assms(2) have step: "response_rejected (dispatch w ?req) ?req (Some (Response 401 d))
      = Refresh (?req\<lparr>retry := True\<rparr>) refreshToken"
    by (simp add: response_rejected_Refresh)
  have res: "refresh_resolved w2 (?req\<lparr>retry := True\<rparr>) resp = Some (?w3, ?again)"
    using assms(6) by (simp add: refresh_resolved_typed)
  have eq: "api srv (Suc n) w cfg = api srv n ?w3 ?again"
    using rej step assms(5) res by (rule api_Refresh)
  from assms(5) obtain m where n: "n = Suc m" by (cases n) simp_all
  have "request_interceptor ?w3 ?again = ?again"
    using request_interceptor_again[where w = w2 and access = access and c = "?req\<lparr>retry := True\<rparr>"]
    by simp
  then have "api srv (Suc m) ?w3 ?again =
      Some (case settle (srv (sent ?w3 @ [?again])) of
              Resolved r \<Rightarrow> Inr r
            | Rejected e \<Rightarrow> Inl (handleError e),
            dispatch ?w3 ?again)"
    using api_retried[of ?again srv m ?w3] by simp
  with eq n show ?thesis by simp
qed

text \<open>
  Against a server that answers 401 to everything, a request that is not marked
  retried never settles while a refresh token is stored: the 401 of each refresh
  call enters the error handler again, which calls for another refresh.
\<close>

lemma refresh_rejected_forever:
  "truthy_item (refresh_token w) = Some rt \<Longrightarrow> \<not> retry cfg \<Longrightarrow>
   api (\<lambda>log. Some (Response 401 d)) n w cfg = None"
proof (induction n arbitrary: w cfg)
  case 0
  then show ?case by simp
next
  case (Suc n)
  let ?req = "request_interceptor w cfg"
  have "response_rejected (dispatch w ?req) ?req (Some (Response 401 d)) = Refresh (?req\<lparr>retry := True\<rparr>) rt"
    using Suc.prems by (simp add: response_rejected_Refresh)
  moreover have "api (\<lambda>log. Some (Response 401 d)) n (dispatch w ?req) (refreshToken_config rt) = None"
    using Suc.prems(1) by (intro Suc.IH) (simp_all add: refreshToken_config_def)
  ultimately show ?case by (simp add: api_refresh_unsettled)
qed

section \<open>The Authorization header\<close>

text \<open>
  Every request the client dispatches has gone through \<open>request_interceptor\<close>
  immediately before (\<open>api\<close> has no other call of \<open>send\<close>, see also
  \<open>api_sent_prefix\<close>). Its configuration is built by a service method or by
  \<open>refreshToken_config\<close>, with no Authorization header, or it is the retry built by
  \<open>refresh_resolved\<close>, bearing the token stored at that moment.
\<close>

lemma refreshToken_config_no_header: "authorization (refreshToken_config rt) = None"
  by (simp add: refreshToken_config_def)

lemma refresh_resolved_header:
  "refresh_resolved w marked resp = Some (w3, again) \<Longrightarrow>
   authorization again = map_option (\<lambda>t. ''Bearer '' @ t) (access_token w3)"
  by (auto simp: refresh_resolved_def Let_def split: json.splits)

text \<open>
  Claim C9. The request goes out with \<^verbatim>\<open>Authorization: Bearer <access>\<close> when an access
  token (a non-empty string) is stored, and without that header when no access token
  is stored.
\<close>

theorem bearer_header_iff_token_stored:
  assumes "authorization cfg = None \<or>
           authorization cfg = map_option (\<lambda>t. ''Bearer '' @ t) (access_token w)"
  shows "(\<forall>t. access_token w = Some t \<and> t \<noteq> [] \<longrightarrow>
              authorization (request_interceptor w cfg) = Some (''Bearer '' @ t))
       \<and> (access_token w = None \<longrightarrow> authorization (request_interceptor w cfg) = None)"
  using assms by (auto simp: request_interceptor_def truthy_item_def)

theorem bearer_header_iff_token_stored_witness:
  "authorization (request_interceptor example_world getConversations_config) = Some ''Bearer expired''
   \<and> authorization (request_interceptor (example_world\<lparr>access_token := None\<rparr>) getConversations_config) = None"
proof -
  have fresh: "authorization getConversations_config = None"
    by (simp add: getConversations_config_def)
  have stored: "access_token example_world = Some ''expired'' \<and> ''expired'' \<noteq> []"
    by (simp add: example_world_def)
  have absent: "access_token (example_world\<lparr>access_token := None\<rparr>) = None"
    by simp
  from bearer_header_iff_token_stored[of getConversations_config example_world, OF disjI1, OF fresh] stored
  have "authorization (request_interceptor example_world getConversations_config)
          = Some (''Bearer '' @ ''expired'')"
    by blast
  moreover
  from bearer_header_iff_token_stored[of getConversations_config "example_world\<lparr>access_token := None\<rparr>",
         OF disjI1, OF fresh] absent
  have "authorization (request_interceptor (example_world\<lparr>access_token := None\<rparr>) getConversations_config)
          = None"
    by blast
  ultimately show ?thesis by simp
qed

text \<open>
  An empty string stored under \<^verbatim>\<open>access_token\<close> is no token for the test
  \<^verbatim>\<open>if (token)\<close>: no header is set.
\<close>

lemma empty_token_sets_no_header:
  "access_token w = Some [] \<Longrightarrow> request_interceptor w cfg = cfg"
  by (simp add: request_interceptor_def truthy_item_def)

text \<open>
  The streaming request is made with \<^verbatim>\<open>fetch\<close>, outside the client and its
  interceptors; it always carries the header, also when no token is stored.
\<close>

lemma stream_request_header_without_token:
  "access_token w = None \<Longrightarrow> sendStreamMessage_authorization w = ''Bearer null''"
  by (simp add: sendStreamMessage_authorization_def)

section \<open>The normalised error\<close>

text \<open>
  Claim C6 says that for every failed response the message is the body when that is
  a plain string, else the \<^verbatim>\<open>message\<close>, \<^verbatim>\<open>detail\<close> or \<^verbatim>\<open>error\<close> field in this order,
  else the generic message, and that the error carries the status code and the raw
  body as details. A 502 with an empty body refutes it: the body is a plain string,
  yet \<open>handleError\<close> takes the generic message and attaches no details, because
  the whole extraction is guarded by \<^verbatim>\<open>if (error.response?.data)\<close>.
\<close>

theorem empty_body_counterexample:
  "handleError (Some (Response 502 (JStr []))) =
     \<lparr>message = JStr ''An unexpected error occurred'', status = 502, details = None\<rparr>
   \<and> spec_HttpError 502 (JStr []) = \<lparr>message = JStr [], status = 502, details = Some (JStr [])\<rparr>
   \<and> handleError (Some (Response 502 (JStr []))) \<noteq> spec_HttpError 502 (JStr [])"
  by (simp add: handleError_def spec_HttpError_def spec_message_def)

text \<open>
  The same guard by truthiness applies to each field: an empty \<^verbatim>\<open>message\<close> is passed
  over in favour of \<^verbatim>\<open>detail\<close>.
\<close>

lemma empty_message_field_passed_over:
  "message (handleError (Some (Response 400 (JObj [(''message'', JStr []), (''detail'', JStr ''x'')]))))
     = JStr ''x''"
  by (simp add: handleError_def truthy_property_def)

text \<open>
  Claim C6 as amended. When the body is truthy (a non-empty string, a non-zero number,
  true, an object or an array) the message is the body if it is a string, else the
  first of the fields \<^verbatim>\<open>message\<close>, \<^verbatim>\<open>detail\<close>, \<^verbatim>\<open>error\<close> whose value is truthy, else the
  generic message, and the raw body is attached as details. When the body is falsy
  (empty string, null, false, 0) the message is the generic one and no details are
  attached. In both cases the error carries the status code, 500 standing in for 0.
\<close>

theorem handleError_by_truthiness:
  "handleError (Some (Response s raw)) =
     (if truthy raw
      then \<lparr>message = (case raw of
                          JStr t \<Rightarrow> raw
                        | _ \<Rightarrow> (case first_truthy raw [''message'', ''detail'', ''error''] of
                                  Some m \<Rightarrow> m
                                | None \<Rightarrow> JStr ''An unexpected error occurred'')),
            status = (if s \<noteq> 0 then s else 500),
            details = Some raw\<rparr>
      else \<lparr>message = JStr ''An unexpected error occurred'',
            status = (if s \<noteq> 0 then s else 500),
            details = None\<rparr>)"
  by (cases raw) (simp_all add: handleError_def split: option.splits)

theorem handleError_by_truthiness_witness:
  "handleError (Some (Response 400 (JObj [(''error'', JStr ''Bad model''), (''detail'', JNull)])))
     = \<lparr>message = JStr ''Bad model'', status = 400,
        details = Some (JObj [(''error'', JStr ''Bad model''), (''detail'', JNull)])\<rparr>
   \<and> handleError (Some (Response 500 (JBool False)))
     = \<lparr>message = JStr ''An unexpected error occurred'', status = 500, details = None\<rparr>"
proof -
  have "first_truthy (JObj [(''error'', JStr ''Bad model''), (''detail'', JNull)])
          [''message'', ''detail'', ''error''] = Some (JStr ''Bad model'')"
    by (simp add: truthy_property_def)
  with handleError_by_truthiness[of 400 "JObj [(''error'', JStr ''Bad model''), (''detail'', JNull)]"]
       handleError_by_truthiness[of 500 "JBool False"]
  show ?thesis by simp
qed

text \<open>
  Where the specification's wording and the code agree: on a truthy body none of whose
  three fields is present with a falsy value, and a status code other than 0.
\<close>

lemma handleError_as_specified:
  assumes "truthy raw" and "s \<noteq> 0"
    and "\<forall>k \<in> {''message'', ''detail'', ''error''}. property raw k = truthy_property raw k"
  shows "handleError (Some (Response s raw)) = spec_HttpError s raw"
  using assms
  by (cases raw)
     (simp_all add: handleError_def spec_HttpError_def spec_message_def split: option.splits)

text \<open>Without a response at all the error is the generic one with status 500.\<close>

lemma handleError_no_response:
  "handleError None = \<lparr>message = JStr ''An unexpected error occurred'', status = 500, details = None\<rparr>"
  by (simp add: handleError_def)

section \<open>The refresh path\<close>

text \<open>
  Claim C1. A request that fails with 401 and is not marked retried, while a refresh
  token is stored and the refresh call resolves (with a body of its declared type,
  carrying the access token): the new access token is stored, the original request
  is dispatched once more, marked retried and bearing the new token, as the only
  request after the refresh call, and the caller receives the outcome of that
  request, whatever it is, not the original 401.
\<close>

theorem refresh_then_retry_once:
  assumes "srv (sent w @ [request_interceptor w cfg]) = Some (Response 401 d)"
    and "\<not> retry cfg"
    and "refresh_token w = Some refreshToken" and "refreshToken \<noteq> []"
    and "api srv n (dispatch w (request_interceptor w cfg)) (refreshToken_config refreshToken)
           = Some (Inr resp, w2)"
    and "property (resp_data resp) ''access'' = Some (JStr access)"
  shows "api srv (Suc n) w cfg =
           Some (case settle (srv (sent w2 @ [(request_interceptor w cfg)\<lparr>retry := True, authorization := Some (''Bearer '' @ access)\<rparr>])) of
                   Resolved r \<Rightarrow> Inr r
                 | Rejected e \<Rightarrow> Inl (handleError e),
                 w2\<lparr>access_token := Some access,
                    sent := sent w2 @ [(request_interceptor w cfg)\<lparr>retry := True, authorization := Some (''Bearer '' @ access)\<rparr>]\<rparr>)
         \<and> (\<exists>rest. sent w2 = sent w @ request_interceptor w cfg #
                    request_interceptor (dispatch w (request_interceptor w cfg)) (refreshToken_config refreshToken) # rest)"
proof -
  from api_sent_prefix[OF assms(5)] obtain rest where
    "sent w2 = sent w @ request_interceptor w cfg #
       request_interceptor (dispatch w (request_interceptor w cfg)) (refreshToken_config refreshToken) # rest"
    by auto
  with api_refreshed[OF assms] show ?thesis by (simp add: dispatch_def)
qed

theorem refresh_then_retry_once_witness:
  "api server_accepting_fresh (Suc (Suc 0)) example_world getConversations_config
     = Some (Inr (Response 200 (JArr [])),
             example_world\<lparr>access_token := Some ''fresh'',
               sent := [\<lparr>http_method = ''get'', url = ''/llm/conversations/'', body = None,
                          authorization = Some ''Bearer expired'', retry = False\<rparr>,
                        \<lparr>http_method = ''post'', url = ''/auth/token/refresh/'',
                          body = Some (JObj [(''refresh'', JStr ''r1'')]),
                          authorization = Some ''Bearer expired'', retry = False\<rparr>,
                        \<lparr>http_method = ''get'', url = ''/llm/conversations/'', body = None,
                          authorization = Some ''Bearer fresh'', retry = True\<rparr>]\<rparr>)"
proof -
  let ?req = "request_interceptor example_world getConversations_config"
  let ?w2 = "\<lparr>access_token = Some ''expired'', refresh_token = Some ''r1'', location = ''/chat'',
              sent = [\<lparr>http_method = ''get'', url = ''/llm/conversations/'', body = None,
                        authorization = Some ''Bearer expired'', retry = False\<rparr>,
                      \<lparr>http_method = ''post'', url = ''/auth/token/refresh/'',
                        body = Some (JObj [(''refresh'', JStr ''r1'')]),
                        authorization = Some ''Bearer expired'', retry = False\<rparr>],
              pending_logouts = []\<rparr>"
  have h1: "server_accepting_fresh (sent example_world @ [?req])
              = Some (Response 401 (JObj [(''detail'', JStr ''Token is invalid or expired'')]))"
    by code_simp
  have h2: "\<not> retry getConversations_config" by code_simp
  have h3: "refresh_token example_world = Some ''r1''" by code_simp
  have h4: "''r1'' \<noteq> []" by simp
  have h5: "api server_accepting_fresh (Suc 0) (dispatch example_world ?req) (refreshToken_config ''r1'')
              = Some (Inr (Response 200 (JObj [(''access'', JStr ''fresh'')])), ?w2)"
    by code_simp
  have h6: "property (resp_data (Response 200 (JObj [(''access'', JStr ''fresh'')]))) ''access''
              = Some (JStr ''fresh'')"
    by code_simp
  have again: "?req\<lparr>retry := True, authorization := Some (''Bearer '' @ ''fresh'')\<rparr>
      = \<lparr>http_method = ''get'', url = ''/llm/conversations/'', body = None,
         authorization = Some ''Bearer fresh'', retry = True\<rparr>"
    by code_simp
  have log: "sent ?w2 @ [\<lparr>http_method = ''get'', url = ''/llm/conversations/'', body = None,
          authorization = Some ''Bearer fresh'', retry = True\<rparr>]
      = [\<lparr>http_method = ''get'', url = ''/llm/conversations/'', body = None,
               authorization = Some ''Bearer expired'', retry = False\<rparr>,
             \<lparr>http_method = ''post'', url = ''/auth/token/refresh/'',
               body = Some (JObj [(''refresh'', JStr ''r1'')]),
               authorization = Some ''Bearer expired'', retry = False\<rparr>,
             \<lparr>http_method = ''get'', url = ''/llm/conversations/'', body = None,
               authorization = Some ''Bearer fresh'', retry = True\<rparr>]"
    by simp
  have retry_answer: "settle (server_accepting_fresh
        [\<lparr>http_method = ''get'', url = ''/llm/conversations/'', body = None,
               authorization = Some ''Bearer expired'', retry = False\<rparr>,
             \<lparr>http_method = ''post'', url = ''/auth/token/refresh/'',
               body = Some (JObj [(''refresh'', JStr ''r1'')]),
               authorization = Some ''Bearer expired'', retry = False\<rparr>,
             \<lparr>http_method = ''get'', url = ''/llm/conversations/'', body = None,
               authorization = Some ''Bearer fresh'', retry = True\<rparr>])
      = Resolved (Response 200 (JArr []))"
    by code_simp
  from refresh_then_retry_once[where srv = server_accepting_fresh and w = example_world
         and cfg = getConversations_config, OF h1 h2 h3 h4 h5 h6]
  have "api server_accepting_fresh (Suc (Suc 0)) example_world getConversations_config
     = Some (Inr (Response 200 (JArr [])),
             ?w2\<lparr>access_token := Some ''fresh'',
               sent := [\<lparr>http_method = ''get'', url = ''/llm/conversations/'', body = None,
                          authorization = Some ''Bearer expired'', retry = False\<rparr>,
                        \<lparr>http_method = ''post'', url = ''/auth/token/refresh/'',
                          body = Some (JObj [(''refresh'', JStr ''r1'')]),
                          authorization = Some ''Bearer expired'', retry = False\<rparr>,
                        \<lparr>http_method = ''get'', url = ''/llm/conversations/'', body = None,
                          authorization = Some ''Bearer fresh'', retry = True\<rparr>]\<rparr>)"
    unfolding again log retry_answer round_trip.case by (rule conjunct1)
  then show ?thesis by (simp add: example_world_def)
qed

text \<open>
  Claim C7. On the same path the refresh replaces the access token and nothing else
  of the credential store: after the refresh call, and after the whole request, the
  stored refresh token is the one stored before; no logout was started and the
  location is unchanged.
\<close>

theorem refresh_replaces_access_only:
  assumes "srv (sent w @ [request_interceptor w cfg]) = Some (Response 401 d)"
    and "\<not> retry cfg"
    and "refresh_token w = Some refreshToken" and "refreshToken \<noteq> []"
    and "api srv n (dispatch w (request_interceptor w cfg)) (refreshToken_config refreshToken)
           = Some (Inr resp, w2)"
    and "property (resp_data resp) ''access'' = Some (JStr access)"
  shows "\<exists>outcome w'. api srv (Suc n) w cfg = Some (outcome, w')
              \<and> access_token w' = Some access
              \<and> refresh_token w' = Some refreshToken
              \<and> refresh_token w2 = Some refreshToken
              \<and> location w' = location w
              \<and> pending_logouts w' = pending_logouts w"
proof -
  from api_resolved_frame[OF assms(5)] assms(3)
  have "refresh_token w2 = Some refreshToken" "location w2 = location w"
    "pending_logouts w2 = pending_logouts w"
    by simp_all
  with api_refreshed[OF assms] show ?thesis by simp
qed

theorem refresh_replaces_access_only_witness:
  "\<exists>outcome w'. api server_accepting_fresh (Suc (Suc 0)) example_world getConversations_config
            = Some (outcome, w')
        \<and> access_token w' = Some ''fresh''
        \<and> refresh_token w' = Some ''r1''
        \<and> location w' = ''/chat''
        \<and> pending_logouts w' = []"
proof -
  let ?req = "request_interceptor example_world getConversations_config"
  let ?w2 = "\<lparr>access_token = Some ''expired'', refresh_token = Some ''r1'', location = ''/chat'',
              sent = [\<lparr>http_method = ''get'', url = ''/llm/conversations/'', body = None,
                        authorization = Some ''Bearer expired'', retry = False\<rparr>,
                      \<lparr>http_method = ''post'', url = ''/auth/token/refresh/'',
                        body = Some (JObj [(''refresh'', JStr ''r1'')]),
                        authorization = Some ''Bearer expired'', retry = False\<rparr>],
              pending_logouts = []\<rparr>"
  have h1: "server_accepting_fresh (sent example_world @ [?req])
              = Some (Response 401 (JObj [(''detail'', JStr ''Token is invalid or expired'')]))"
    by code_simp
  have h2: "\<not> retry getConversations_config" by code_simp
  have h3: "refresh_token example_world = Some ''r1''" by code_simp
  have h4: "''r1'' \<noteq> []" by simp
  have h5: "api server_accepting_fresh (Suc 0) (dispatch example_world ?req) (refreshToken_config ''r1'')
              = Some (Inr (Response 200 (JObj [(''access'', JStr ''fresh'')])), ?w2)"
    by code_simp
  have h6: "property (resp_data (Response 200 (JObj [(''access'', JStr ''fresh'')]))) ''access''
              = Some (JStr ''fresh'')"
    by code_simp
  have w: "location example_world = ''/chat''" "pending_logouts example_world = []"
    by (simp_all add: example_world_def)
  from refresh_replaces_access_only[where srv = server_accepting_fresh and w = example_world
         and cfg = getConversations_config, OF h1 h2 h3 h4 h5 h6]
  show ?thesis unfolding w by blast
qed

section \<open>Failures that are passed on\<close>

text \<open>
  Claim C2. A request that is already marked retried, or that fails with a status
  other than 401 or with no response at all, is rejected with the normalised error
  of its own failure. Nothing else happens: the one request is the only one
  dispatched (no refresh call, no retry), the credential store and the location are
  untouched and no logout is started.
\<close>

theorem retried_or_other_status_propagates:
  assumes "settle (srv (sent w @ [request_interceptor w cfg])) = Rejected err"
    and "retry cfg \<or> (\<forall>d. err \<noteq> Some (Response 401 d))"
  shows "api srv (Suc n) w cfg =
           Some (Inl (handleError err), w\<lparr>sent := sent w @ [request_interceptor w cfg]\<rparr>)"
proof -
  have "response_rejected (dispatch w (request_interceptor w cfg)) (request_interceptor w cfg) err
          = Propagate (handleError err)"
    using assms(2) by (auto simp: response_rejected_retried response_rejected_other_status)
  with assms(1)
  have "api srv (Suc n) w cfg = Some (Inl (handleError err), dispatch w (request_interceptor w cfg))"
    by (rule api_Propagate)
  then show ?thesis by (simp add: dispatch_def)
qed

theorem retried_or_other_status_propagates_witness:
  "api server_unavailable (Suc 0) example_world getConversations_config
     = Some (Inl \<lparr>message = JStr ''An unexpected error occurred'', status = 503, details = None\<rparr>,
             example_world\<lparr>sent := [\<lparr>http_method = ''get'', url = ''/llm/conversations/'', body = None,
                                      authorization = Some ''Bearer expired'', retry = False\<rparr>]\<rparr>)
   \<and> api server_rejecting_all (Suc 0) example_world (getConversations_config\<lparr>retry := True\<rparr>)
     = Some (Inl \<lparr>message = JStr ''Token is invalid or expired'', status = 401,
                  details = Some (JObj [(''detail'', JStr ''Token is invalid or expired'')])\<rparr>,
             example_world\<lparr>sent := [\<lparr>http_method = ''get'', url = ''/llm/conversations/'', body = None,
                                      authorization = Some ''Bearer expired'', retry = True\<rparr>]\<rparr>)"
proof -
  let ?cfg = "getConversations_config\<lparr>retry := True\<rparr>"
  let ?e503 = "Some (Response 503 (JStr []))"
  let ?e401 = "Some (Response 401 (JObj [(''detail'', JStr ''Token is invalid or expired'')]))"
  have a1: "settle (server_unavailable (sent example_world @ [request_interceptor example_world getConversations_config]))
      = Rejected ?e503"
    by (simp add: server_unavailable_def settle_def)
  have a2: "retry getConversations_config \<or> (\<forall>d. ?e503 \<noteq> Some (Response 401 d))" by simp
  have b1: "settle (server_rejecting_all (sent example_world @ [request_interceptor example_world ?cfg]))
      = Rejected ?e401"
    by (simp add: server_rejecting_all_def settle_def)
  have b2: "retry ?cfg \<or> (\<forall>d. ?e401 \<noteq> Some (Response 401 d))" by simp
  have v1: "handleError ?e503 = \<lparr>message = JStr ''An unexpected error occurred'', status = 503, details = None\<rparr>"
    by (simp add: handleError_def)
  have v2: "handleError ?e401 = \<lparr>message = JStr ''Token is invalid or expired'', status = 401,
                         details = Some (JObj [(''detail'', JStr ''Token is invalid or expired'')])\<rparr>"
    by (simp add: handleError_def truthy_property_def)
  have r1: "sent example_world @ [request_interceptor example_world getConversations_config]
      = [\<lparr>http_method = ''get'', url = ''/llm/conversations/'', body = None,
          authorization = Some ''Bearer expired'', retry = False\<rparr>]"
    by (simp add: request_interceptor_def truthy_item_def example_world_def getConversations_config_def)
  have r2: "sent example_world @ [request_interceptor example_world ?cfg]
      = [\<lparr>http_method = ''get'', url = ''/llm/conversations/'', body = None,
          authorization = Some ''Bearer expired'', retry = True\<rparr>]"
    by (simp add: request_interceptor_def truthy_item_def example_world_def getConversations_config_def)
  from retried_or_other_status_propagates[where srv = server_unavailable and w = example_world
         and cfg = getConversations_config and n = 0, OF a1 a2]
       retried_or_other_status_propagates[where srv = server_rejecting_all and w = example_world
         and cfg = ?cfg and n = 0, OF b1 b2]
  show ?thesis unfolding v1 v2 r1 r2 by (rule conjI)
qed

text \<open>
  Claim C10. A 401 received while no refresh token is stored: the error handler
  makes no refresh call and starts no logout. The one request is the only one
  dispatched, the stored access token stays in place, the location is unchanged,
  and the caller receives the normalised error of the 401.
\<close>

theorem unauthorized_without_refresh_token:
  assumes "srv (sent w @ [request_interceptor w cfg]) = Some (Response 401 d)"
    and "refresh_token w = None"
  shows "api srv (Suc n) w cfg =
           Some (Inl (handleError (Some (Response 401 d))),
                 w\<lparr>sent := sent w @ [request_interceptor w cfg]\<rparr>)"
proof -
  let ?req = "request_interceptor w cfg"
  have "truthy_item (refresh_token (dispatch w ?req)) = None"
    using assms(2) by (simp add: truthy_item_def)
  then have "response_rejected (dispatch w ?req) ?req (Some (Response 401 d))
          = Propagate (handleError (Some (Response 401 d)))"
    by (rule response_rejected_no_refresh_token)
  moreover have "settle (srv (sent w @ [?req])) = Rejected (Some (Response 401 d))"
    using assms(1) by simp
  ultimately
  have "api srv (Suc n) w cfg = Some (Inl (handleError (Some (Response 401 d))), dispatch w ?req)"
    by (rule api_Propagate[rotated])
  then show ?thesis by (simp add: dispatch_def)
qed

theorem unauthorized_without_refresh_token_witness:
  "api server_rejecting_all (Suc 0) (example_world\<lparr>refresh_token := None\<rparr>) getConversations_config
     = Some (Inl \<lparr>message = JStr ''Token is invalid or expired'', status = 401,
                  details = Some (JObj [(''detail'', JStr ''Token is invalid or expired'')])\<rparr>,
             example_world\<lparr>refresh_token := None,
                           sent := [\<lparr>http_method = ''get'', url = ''/llm/conversations/'', body = None,
                                      authorization = Some ''Bearer expired'', retry = False\<rparr>]\<rparr>)"
proof -
  let ?w = "example_world\<lparr>refresh_token := None\<rparr>"
  let ?d = "JObj [(''detail'', JStr ''Token is invalid or expired'')]"
  have a1: "server_rejecting_all (sent ?w @ [request_interceptor ?w getConversations_config])
      = Some (Response 401 ?d)"
    by (simp add: server_rejecting_all_def)
  have a2: "refresh_token ?w = None" by simp
  have v: "handleError (Some (Response 401 ?d)) = \<lparr>message = JStr ''Token is invalid or expired'', status = 401,
                         details = Some ?d\<rparr>"
    by (simp add: handleError_def truthy_property_def)
  have r: "sent ?w @ [request_interceptor ?w getConversations_config]
      = [\<lparr>http_method = ''get'', url = ''/llm/conversations/'', body = None,
          authorization = Some ''Bearer expired'', retry = False\<rparr>]"
    by (simp add: request_interceptor_def truthy_item_def example_world_def getConversations_config_def)
  from unauthorized_without_refresh_token[where srv = server_rejecting_all and w = ?w
         and cfg = getConversations_config and n = 0, OF a1 a2]
  show ?thesis unfolding v r .
qed

section \<open>A refresh that fails\<close>

text \<open>
  Claim C4. The claim is that a failed refresh clears the credential store, redirects
  to the login page and hands the original failure to the caller. With both tokens
  invalid the server answers the original request and every refresh call with 401.
  The refresh call goes through the same client, so its 401 enters the error handler
  again, with a fresh configuration that is not marked retried and with the refresh
  token still stored: the handler calls for another refresh, and so on. At this input
  the request never settles, whatever bound is put on the nesting; the catch block
  with its logout and redirect is never reached and the caller receives nothing.
\<close>

theorem refresh_answered_401_never_settles:
  "api server_rejecting_all n example_world getConversations_config = None"
proof -
  have srv: "server_rejecting_all =
      (\<lambda>log. Some (Response 401 (JObj [(''detail'', JStr ''Token is invalid or expired'')])))"
    by (rule ext) (simp add: server_rejecting_all_def)
  have stored: "truthy_item (refresh_token example_world) = Some ''r1''"
    by (simp add: truthy_item_def example_world_def)
  have fresh: "\<not> retry getConversations_config"
    by (simp add: getConversations_config_def)
  show ?thesis unfolding srv by (rule refresh_rejected_forever[OF stored fresh])
qed

section \<open>Invalidation by the mutations\<close>

lemma partialMatchKey_single:
  "partialMatchKey k [p] \<longleftrightarrow> (\<exists>rest. k = p # rest)"
  by (cases k) (auto elim: partialMatchKey.elims)

lemma cached_invalidateQueries [simp]:
  "cached (invalidateQueries f c) k \<longleftrightarrow> cached c k"
proof -
  have "(\<exists>q \<in> set (map (\<lambda>q. if partialMatchKey (queryKey q) f then q\<lparr>isInvalidated := True\<rparr> else q) qs).
            queryKey q = k)
        \<longleftrightarrow> (\<exists>q \<in> set qs. queryKey q = k)" for qs
    by (induction qs) auto
  moreover have "queries (invalidateQueries f c) =
      map (\<lambda>q. if partialMatchKey (queryKey q) f then q\<lparr>isInvalidated := True\<rparr> else q) (queries c)"
    by (simp add: invalidateQueries_def)
  ultimately show ?thesis unfolding cached_def by (simp only:)
qed

lemma invalidated_invalidateQueries:
  "invalidated (invalidateQueries f c) k \<longleftrightarrow>
     invalidated c k \<or> (cached c k \<and> partialMatchKey k f)"
proof -
  have "(\<exists>q \<in> set (map (\<lambda>q. if partialMatchKey (queryKey q) f then q\<lparr>isInvalidated := True\<rparr> else q) qs).
            queryKey q = k \<and> isInvalidated q)
        \<longleftrightarrow> (\<exists>q \<in> set qs. queryKey q = k \<and> isInvalidated q)
            \<or> ((\<exists>q \<in> set qs. queryKey q = k) \<and> partialMatchKey k f)" for qs
    by (induction qs) auto
  moreover have "queries (invalidateQueries f c) =
      map (\<lambda>q. if partialMatchKey (queryKey q) f then q\<lparr>isInvalidated := True\<rparr> else q) (queries c)"
    by (simp add: invalidateQueries_def)
  ultimately show ?thesis unfolding invalidated_def cached_def by (simp only:)
qed

lemma mutateAsync_resolved:
  "mutateAsync mutationFn onSuccess onError srv n (w, c) = Some (Inr v, w', c') \<Longrightarrow>
   c' = onSuccess v c"
  by (auto simp: mutateAsync_def split: option.splits sum.splits)

lemma mutateAsync_rejected:
  "mutateAsync mutationFn onSuccess onError srv n (w, c) = Some (Inl e, w', c') \<Longrightarrow>
   c' = onError e c"
  by (auto simp: mutateAsync_def split: option.splits sum.splits)

text \<open>
  Claim C5 says that archiving a conversation and sending a message invalidate both
  the list key \<^verbatim>\<open>conversations\<close> and the key \<^verbatim>\<open>conversation:<id>\<close> of the conversation
  concerned. Conversation 7 is archived with success while its query
  \<^verbatim>\<open>['conversation', 7]\<close> is cached: the list is invalidated, the conversation is not.
\<close>

theorem archive_keeps_conversation_counterexample:
  "archiveConversationMutation 7 server_accepting_all (Suc 0) (example_world, example_client)
     = Some (Inr (),
             example_world\<lparr>sent := [\<lparr>http_method = ''post'', url = ''/llm/conversations/7/archive/'',
                                      body = None, authorization = Some ''Bearer expired'',
                                      retry = False\<rparr>]\<rparr>,
             example_client\<lparr>queries :=
               [\<lparr>queryKey = [KStr ''conversations''], data = Some (JArr []), isInvalidated = True\<rparr>,
                \<lparr>queryKey = [KStr ''conversation'', KNum 7], data = Some (JObj []), isInvalidated = False\<rparr>]\<rparr>)
   \<and> cached example_client [KStr ''conversation'', KNum 7]
   \<and> \<not> invalidated
         (example_client\<lparr>queries :=
               [\<lparr>queryKey = [KStr ''conversations''], data = Some (JArr []), isInvalidated = True\<rparr>,
                \<lparr>queryKey = [KStr ''conversation'', KNum 7], data = Some (JObj []), isInvalidated = False\<rparr>]\<rparr>)
         [KStr ''conversation'', KNum 7]"
  by code_simp

text \<open>
  Claim C5 as amended. Each conversation mutation (create, update, delete, archive,
  unarchive, send message) invalidates on success exactly the cached queries whose
  key begins with \<^verbatim>\<open>conversations\<close>. The queries cached stay the same, and a query
  whose key begins with \<^verbatim>\<open>conversation\<close>, such as that of a single conversation, is as
  fresh or stale as before.
\<close>

theorem conversation_mutations_invalidate_list_only:
  assumes "(\<exists>v. createConversationMutation payload srv n (w, c) = Some (Inr v, w', c'))
         \<or> (\<exists>v. updateConversationMutation conversation_id payload srv n (w, c) = Some (Inr v, w', c'))
         \<or> (\<exists>v. deleteConversationMutation conversation_id srv n (w, c) = Some (Inr v, w', c'))
         \<or> (\<exists>v. archiveConversationMutation conversation_id srv n (w, c) = Some (Inr v, w', c'))
         \<or> (\<exists>v. unarchiveConversationMutation conversation_id srv n (w, c) = Some (Inr v, w', c'))
         \<or> (\<exists>v. sendMessageMutation chatRequest srv n (w, c) = Some (Inr v, w', c'))"
  shows "(invalidated c' k \<longleftrightarrow>
            invalidated c k \<or> (cached c k \<and> (\<exists>rest. k = KStr ''conversations'' # rest)))
       \<and> (cached c' k \<longleftrightarrow> cached c k)
       \<and> (invalidated c' (KStr ''conversation'' # ids) \<longleftrightarrow> invalidated c (KStr ''conversation'' # ids))"
proof -
  from assms have c': "c' = invalidateQueries [KStr ''conversations''] c"
    unfolding createConversationMutation_def updateConversationMutation_def
      deleteConversationMutation_def archiveConversationMutation_def
      unarchiveConversationMutation_def sendMessageMutation_def
    by (auto dest: mutateAsync_resolved)
  show ?thesis
    unfolding c' invalidated_invalidateQueries partialMatchKey_single by simp
qed

theorem conversation_mutations_invalidate_list_only_witness:
  "invalidated
     (example_client\<lparr>queries :=
        [\<lparr>queryKey = [KStr ''conversations''], data = Some (JArr []), isInvalidated = True\<rparr>,
         \<lparr>queryKey = [KStr ''conversation'', KNum 7], data = Some (JObj []), isInvalidated = False\<rparr>]\<rparr>)
     [KStr ''conversations'']
   \<and> \<not> invalidated
     (example_client\<lparr>queries :=
        [\<lparr>queryKey = [KStr ''conversations''], data = Some (JArr []), isInvalidated = True\<rparr>,
         \<lparr>queryKey = [KStr ''conversation'', KNum 7], data = Some (JObj []), isInvalidated = False\<rparr>]\<rparr>)
     [KStr ''conversation'', KNum 7]"
proof -
  let ?w' = "example_world\<lparr>sent := [\<lparr>http_method = ''post'', url = ''/llm/chat/'',
                                      body = Some (JObj [(''message'', JStr ''hello''),
                                                         (''conversation_id'', JNum 7)]),
                                      authorization = Some ''Bearer expired'',
                                      retry = False\<rparr>]\<rparr>"
  let ?c' = "example_client\<lparr>queries :=
        [\<lparr>queryKey = [KStr ''conversations''], data = Some (JArr []), isInvalidated = True\<rparr>,
         \<lparr>queryKey = [KStr ''conversation'', KNum 7], data = Some (JObj []), isInvalidated = False\<rparr>]\<rparr>"
  have run: "sendMessageMutation (JObj [(''message'', JStr ''hello''), (''conversation_id'', JNum 7)])
               server_accepting_all (Suc 0) (example_world, example_client)
      = Some (Inr (JObj []), ?w', ?c')"
    by code_simp
  have h: "(\<exists>v. createConversationMutation JNull server_accepting_all (Suc 0) (example_world, example_client)
                    = Some (Inr v, ?w', ?c'))
         \<or> (\<exists>v. updateConversationMutation 7 JNull server_accepting_all (Suc 0) (example_world, example_client)
                    = Some (Inr v, ?w', ?c'))
         \<or> (\<exists>v. deleteConversationMutation 7 server_accepting_all (Suc 0) (example_world, example_client)
                    = Some (Inr v, ?w', ?c'))
         \<or> (\<exists>v. archiveConversationMutation 7 server_accepting_all (Suc 0) (example_world, example_client)
                    = Some (Inr v, ?w', ?c'))
         \<or> (\<exists>v. unarchiveConversationMutation 7 server_accepting_all (Suc 0) (example_world, example_client)
                    = Some (Inr v, ?w', ?c'))
         \<or> (\<exists>v. sendMessageMutation (JObj [(''message'', JStr ''hello''), (''conversation_id'', JNum 7)])
                    server_accepting_all (Suc 0) (example_world, example_client)
                    = Some (Inr v, ?w', ?c'))"
    by (intro disjI2 exI) (rule run)
  have before: "\<not> invalidated example_client [KStr ''conversations'']"
    "\<not> invalidated example_client [KStr ''conversation'', KNum 7]"
    "cached example_client [KStr ''conversations'']"
    by code_simp+
  from conversation_mutations_invalidate_list_only[OF h, of "[KStr ''conversations'']" "[KNum 7]"] before
  show ?thesis by simp
qed

text \<open>A mutation that fails leaves the cache as it is.\<close>

lemma conversation_mutations_rejected:
  assumes "createConversationMutation payload srv n (w, c) = Some (Inl e, w', c')
         \<or> updateConversationMutation conversation_id payload srv n (w, c) = Some (Inl e, w', c')
         \<or> deleteConversationMutation conversation_id srv n (w, c) = Some (Inl e, w', c')
         \<or> archiveConversationMutation conversation_id srv n (w, c) = Some (Inl e, w', c')
         \<or> unarchiveConversationMutation conversation_id srv n (w, c) = Some (Inl e, w', c')
         \<or> sendMessageMutation chatRequest srv n (w, c) = Some (Inl e, w', c')"
  shows "c' = c"
  using assms
  unfolding createConversationMutation_def updateConversationMutation_def
    deleteConversationMutation_def archiveConversationMutation_def
    unarchiveConversationMutation_def sendMessageMutation_def
  by (auto dest: mutateAsync_rejected)

text \<open>Updating the preferences invalidates the queries under \<^verbatim>\<open>preferences\<close>.\<close>

lemma updatePreferences_invalidates:
  assumes "updatePreferencesMutation payload srv n (w, c) = Some (Inr v, w', c')"
  shows "invalidated c' k \<longleftrightarrow>
           invalidated c k \<or> (cached c k \<and> (\<exists>rest. k = KStr ''preferences'' # rest))"
proof -
  from assms have c': "c' = invalidateQueries [KStr ''preferences''] c"
    unfolding updatePreferencesMutation_def by (auto dest: mutateAsync_resolved)
  show ?thesis unfolding c' invalidated_invalidateQueries partialMatchKey_single ..
qed

text \<open>What does invalidate the query of a single conversation.\<close>

lemma refreshConversation_invalidates:
  "cached c [KStr ''conversation'', KNum conversation_id] \<Longrightarrow>
   invalidated (refreshConversation conversation_id c) [KStr ''conversation'', KNum conversation_id]"
  by (simp add: refreshConversation_def invalidated_invalidateQueries)

section \<open>Logout\<close>

lemma remove_tokens_simps [simp]:
  "access_token (remove_tokens w) = None"
  "refresh_token (remove_tokens w) = None"
  "location (remove_tokens w) = location w"
  "sent (remove_tokens w) = sent w"
  "pending_logouts (remove_tokens w) = pending_logouts w"
  by (simp_all add: remove_tokens_def)

lemma logout_settles:
  assumes "\<forall>rt. truthy_item (refresh_token w) = Some rt \<longrightarrow> api srv n w (logout_config rt) \<noteq> None"
  shows "\<exists>w'. logout srv n w = Some (Inr (), w') \<and> access_token w' = None \<and> refresh_token w' = None"
proof (cases "truthy_item (refresh_token w)")
  case None
  then show ?thesis by (simp add: logout_def)
next
  case (Some rt)
  with assms obtain outcome w1 where "api srv n w (logout_config rt) = Some (outcome, w1)"
    by fastforce
  with Some show ?thesis by (simp add: logout_def)
qed

text \<open>
  Whenever the logout POST settles, whether it resolves or rejects, and also when no
  POST is made because no refresh token is stored, the logout mutation completes:
  both tokens are removed from the credential store, the query cache is empty and no
  user is set.
\<close>

lemma logout_clears_when_post_settles:
  assumes "\<forall>rt. truthy_item (refresh_token w) = Some rt \<longrightarrow> api srv n w (logout_config rt) \<noteq> None"
  shows "\<exists>w'. logoutMutation srv n (w, c) = Some (Inr (), w', \<lparr>queries = [], user = None\<rparr>)
              \<and> access_token w' = None \<and> refresh_token w' = None"
proof -
  from logout_settles[OF assms] obtain w' where
    "logout srv n w = Some (Inr (), w')" "access_token w' = None" "refresh_token w' = None"
    by blast
  then show ?thesis
    by (simp add: logoutMutation_def mutateAsync_def clear_def)
qed

text \<open>The logout POST is refused with 503, or accepted.\<close>

lemma logout_refused_example:
  "logoutMutation server_unavailable (Suc 0) (example_world, example_client)
     = Some (Inr (),
             example_world\<lparr>access_token := None, refresh_token := None,
               sent := [\<lparr>http_method = ''post'', url = ''/auth/logout/'',
                          body = Some (JObj [(''refresh'', JStr ''r1'')]),
                          authorization = Some ''Bearer expired'', retry = False\<rparr>]\<rparr>,
             \<lparr>queries = [], user = None\<rparr>)"
  by code_simp

lemma logout_accepted_example:
  "logoutMutation server_accepting_all (Suc 0) (example_world, example_client)
     = Some (Inr (),
             example_world\<lparr>access_token := None, refresh_token := None,
               sent := [\<lparr>http_method = ''post'', url = ''/auth/logout/'',
                          body = Some (JObj [(''refresh'', JStr ''r1'')]),
                          authorization = Some ''Bearer expired'', retry = False\<rparr>]\<rparr>,
             \<lparr>queries = [], user = None\<rparr>)"
  by code_simp

text \<open>
  The logout POST is a request like any other. Answered 401 by a server that
  answers 401 to the refresh as well, it never settles (\<open>refresh_rejected_forever\<close>),
  and then \<^verbatim>\<open>ApiService.logout\<close> never reaches the two \<^verbatim>\<open>removeItem\<close> calls after its
  try block.
\<close>

lemma logout_never_settles:
  "logout server_rejecting_all n example_world = None"
proof -
  have srv: "server_rejecting_all =
      (\<lambda>log. Some (Response 401 (JObj [(''detail'', JStr ''Token is invalid or expired'')])))"
    by (rule ext) (simp add: server_rejecting_all_def)
  have stored: "truthy_item (refresh_token example_world) = Some ''r1''"
    by (simp add: truthy_item_def example_world_def)
  have "api server_rejecting_all n example_world (logout_config ''r1'') = None"
    unfolding srv by (rule refresh_rejected_forever[OF stored]) (simp add: logout_config_def)
  with stored show ?thesis by (simp add: logout_def)
qed

text \<open>
  Claim C8. The claim is that the local teardown of a logout always completes,
  whatever the server answers. With both tokens invalid the server answers the logout
  POST and every refresh call with 401. At this input the logout mutation never
  completes, whatever bound is put on the nesting: neither the tokens are removed nor
  the cache is cleared. This is the defect of claim C4 met on the logout path.
\<close>

theorem logout_answered_401_never_completes:
  "logoutMutation server_rejecting_all n (example_world, example_client) = None"
  by (simp add: logoutMutation_def mutateAsync_def logout_never_settles)

subsection \<open>The logout started by a failed refresh\<close>

text \<open>
  When the refresh call does reject, the handler rejects with the normalised error of
  the original 401, the location is the login page, and a logout has been started:
  either no refresh token was left and both tokens are already removed, or the logout
  is suspended at its POST and removes both tokens once that has settled.
\<close>

lemma refresh_rejected_logs_out:
  assumes "srv (sent w @ [request_interceptor w cfg]) = Some (Response 401 d)"
    and "\<not> retry cfg"
    and "refresh_token w = Some refreshToken" and "refreshToken \<noteq> []"
    and "api srv n (dispatch w (request_interceptor w cfg)) (refreshToken_config refreshToken)
           = Some (Inl e, w2)"
  shows "api srv (Suc n) w cfg = Some (Inl (handleError (Some (Response 401 d))), refresh_failed w2)"
proof -
  let ?req = "request_interceptor w cfg"
  have rej: "settle (srv (sent w @ [?req])) = Rejected (Some (Response 401 d))"
    using assms(1) by simp
  have "truthy_item (refresh_token (dispatch w ?req)) = Some refreshToken"
    using assms(3,4) by (simp add: truthy_item_def)
  with assms(2) have step: "response_rejected (dispatch w ?req) ?req (Some (Response 401 d))
      = Refresh (?req\<lparr>retry := True\<rparr>) refreshToken"
    by (simp add: response_rejected_Refresh)
  from rej step assms(5) show ?thesis by (rule api_refresh_rejected)
qed

lemma refresh_failed_effect:
  "location (refresh_failed w) = ''/login'' \<and>
   (case truthy_item (refresh_token w) of
      Some rt \<Rightarrow> pending_logouts (refresh_failed w) = pending_logouts w @ [rt]
    | None \<Rightarrow> access_token (refresh_failed w) = None \<and> refresh_token (refresh_failed w) = None)"
  by (simp add: refresh_failed_def logout_detached_def split: option.splits)

lemma resume_logout_clears:
  "pending_logouts w \<noteq> [] \<Longrightarrow> resume_logout srv n w = Some w' \<Longrightarrow>
   access_token w' = None \<and> refresh_token w' = None"
  by (auto simp: resume_logout_def split: list.splits option.splits)

lemma refresh_refused_example:
  "api server_refusing_refresh (Suc (Suc 0)) example_world getConversations_config
     = Some (Inl \<lparr>message = JStr ''Token is invalid or expired'', status = 401,
                  details = Some (JObj [(''detail'', JStr ''Token is invalid or expired'')])\<rparr>,
             example_world\<lparr>location := ''/login'',
               sent := [\<lparr>http_method = ''get'', url = ''/llm/conversations/'', body = None,
                          authorization = Some ''Bearer expired'', retry = False\<rparr>,
                        \<lparr>http_method = ''post'', url = ''/auth/token/refresh/'',
                          body = Some (JObj [(''refresh'', JStr ''r1'')]),
                          authorization = Some ''Bearer expired'', retry = False\<rparr>],
               pending_logouts := [''r1'']\<rparr>)"
  by code_simp

section \<open>Concurrent requests\<close>

lemma start_eq:
  "start w cfg frames = (dispatch w (request_interceptor w cfg), InFlight (request_interceptor w cfg) frames)"
  by (simp add: start_def Let_def)

subsection \<open>A request alone behaves as \<open>api\<close> says\<close>

lemma settle_task_Settled [simp]: "settle_task srv k (w, Settled outcome) = Some (outcome, w)"
  by (cases k) simp_all

lemma settle_task_start:
  "settle_task srv (Suc k) (start w cfg frames) =
     settle_task srv k (on_response (dispatch w (request_interceptor w cfg))
       (InFlight (request_interceptor w cfg) frames) (srv (sent w @ [request_interceptor w cfg])))"
  by (simp add: start_eq)

lemma api_simulated:
  "api srv n w cfg = Some (outcome, w') \<Longrightarrow>
   \<exists>k. \<forall>j. settle_task srv (k + j) (start w cfg frames) =
             settle_task srv j (case outcome of
                                  Inl e \<Rightarrow> rejects w' frames e
                                | Inr resp \<Rightarrow> resolves w' frames resp)"
proof (induction n arbitrary: w cfg outcome w' frames)
  case 0
  then show ?case by simp
next
  case (Suc n)
  let ?req = "request_interceptor w cfg"
  let ?w1 = "dispatch w ?req"
  from Suc.prems show ?case
  proof (cases rule: api_settled_cases)
    case (resolved resp)
    then have "\<forall>j. settle_task srv (Suc 0 + j) (start w cfg frames) =
        settle_task srv j (case outcome of Inl e \<Rightarrow> rejects w' frames e | Inr resp \<Rightarrow> resolves w' frames resp)"
      by (simp add: settle_task_start)
    then show ?thesis by blast
  next
    case (propagated err e)
    then have "\<forall>j. settle_task srv (Suc 0 + j) (start w cfg frames) =
        settle_task srv j (case outcome of Inl e \<Rightarrow> rejects w' frames e | Inr resp \<Rightarrow> resolves w' frames resp)"
      by (simp add: settle_task_start)
    then show ?thesis by blast
  next
    case (refresh_rejected err marked rt e w2)
    from Suc.IH[OF refresh_rejected(3), of "(marked, err) # frames"] obtain k2 where
      "\<forall>j. settle_task srv (k2 + j) (start ?w1 (refreshToken_config rt) ((marked, err) # frames)) =
           settle_task srv j (rejects (refresh_failed w2) frames (handleError err))"
      by auto
    with refresh_rejected
    have "\<forall>j. settle_task srv (Suc k2 + j) (start w cfg frames) =
        settle_task srv j (case outcome of Inl e \<Rightarrow> rejects w' frames e | Inr resp \<Rightarrow> resolves w' frames resp)"
      by (simp add: settle_task_start)
    then show ?thesis by blast
  next
    case (refresh_unreadable err marked rt resp w2)
    from Suc.IH[OF refresh_unreadable(3), of "(marked, err) # frames"] refresh_unreadable(4) obtain k2 where
      "\<forall>j. settle_task srv (k2 + j) (start ?w1 (refreshToken_config rt) ((marked, err) # frames)) =
           settle_task srv j (rejects (refresh_failed w2) frames (handleError err))"
      by auto
    with refresh_unreadable
    have "\<forall>j. settle_task srv (Suc k2 + j) (start w cfg frames) =
        settle_task srv j (case outcome of Inl e \<Rightarrow> rejects w' frames e | Inr resp \<Rightarrow> resolves w' frames resp)"
      by (simp add: settle_task_start)
    then show ?thesis by blast
  next
    case (retried err marked rt resp w2 w3 again)
    from Suc.IH[OF retried(3), of "(marked, err) # frames"] retried(4) obtain k2 where
      k2: "\<forall>j. settle_task srv (k2 + j) (start ?w1 (refreshToken_config rt) ((marked, err) # frames)) =
           settle_task srv j (start w3 again frames)"
      by auto
    from Suc.IH[OF retried(5), of frames] obtain k3 where
      k3: "\<forall>j. settle_task srv (k3 + j) (start w3 again frames) =
           settle_task srv j (case outcome of Inl e \<Rightarrow> rejects w' frames e | Inr resp \<Rightarrow> resolves w' frames resp)"
      by auto
    have "settle_task srv (Suc (k2 + k3) + j) (start w cfg frames) =
        settle_task srv j (case outcome of Inl e \<Rightarrow> rejects w' frames e | Inr resp \<Rightarrow> resolves w' frames resp)" for j
    proof -
      have "settle_task srv (Suc (k2 + k3) + j) (start w cfg frames) =
          settle_task srv (k2 + (k3 + j)) (start ?w1 (refreshToken_config rt) ((marked, err) # frames))"
        using retried(1,2) by (simp add: settle_task_start add.assoc)
      also have "\<dots> = settle_task srv (k3 + j) (start w3 again frames)"
        using k2 by blast
      also have "\<dots> = settle_task srv j (case outcome of Inl e \<Rightarrow> rejects w' frames e | Inr resp \<Rightarrow> resolves w' frames resp)"
        using k3 by blast
      finally show ?thesis .
    qed
    then show ?thesis by blast
  qed
qed

text \<open>
  What \<open>api\<close> returns for a request is what the task of that request settles with
  when it runs alone, each response arriving before anything else happens.
\<close>

lemma api_is_single_task:
  assumes "api srv n w cfg = Some (outcome, w')"
  shows "\<exists>k. settle_task srv k (start w cfg []) = Some (outcome, w')"
proof -
  from api_simulated[OF assms, of "[]"] obtain k where
    "settle_task srv (k + 0) (start w cfg []) =
       settle_task srv 0 (case outcome of Inl e \<Rightarrow> rejects w' [] e | Inr resp \<Rightarrow> resolves w' [] resp)"
    by blast
  then have "settle_task srv k (start w cfg []) = Some (outcome, w')"
    by (cases outcome) simp_all
  then show ?thesis ..
qed

text \<open>A larger bound does not change what a settled call returns.\<close>

lemma api_mono:
  "api srv n w cfg = Some x \<Longrightarrow> api srv (n + m) w cfg = Some x"
proof (induction n arbitrary: w cfg x)
  case 0
  then show ?case by simp
next
  case (Suc n)
  obtain outcome w' where x: "x = (outcome, w')" by (cases x)
  from Suc.prems[unfolded x] show ?case
  proof (cases rule: api_settled_cases)
    case (resolved resp)
    with x api_Resolved[where srv = srv and w = w and cfg = cfg and n = "n + m", OF resolved(1)]
    show ?thesis by simp
  next
    case (propagated err e)
    with x api_Propagate[where srv = srv and w = w and cfg = cfg and n = "n + m", OF propagated(1,2)]
    show ?thesis by simp
  next
    case (refresh_rejected err marked rt e w2)
    from api_refresh_rejected[where srv = srv and w = w and cfg = cfg and n = "n + m",
           OF refresh_rejected(1,2) Suc.IH[OF refresh_rejected(3)]]
         refresh_rejected(4,5) x
    show ?thesis by simp
  next
    case (refresh_unreadable err marked rt resp w2)
    from api_refresh_unreadable[where srv = srv and w = w and cfg = cfg and n = "n + m",
           OF refresh_unreadable(1,2) Suc.IH[OF refresh_unreadable(3)] refresh_unreadable(4)]
         refresh_unreadable(5,6) x
    show ?thesis by simp
  next
    case (retried err marked rt resp w2 w3 again)
    from api_Refresh[where srv = srv and w = w and cfg = cfg and n = "n + m",
           OF retried(1,2) Suc.IH[OF retried(3)] retried(4)]
         Suc.IH[OF retried(5)] x
    show ?thesis by simp
  qed
qed

text \<open>
  Conversely, when the task of a request settles, running alone, \<open>api\<close> settles
  with a large enough bound, and the task goes on from what \<open>api\<close> returns.
\<close>

lemma task_simulated:
  "settle_task srv k (start w cfg frames) = Some y \<Longrightarrow>
   \<exists>n outcome w' j. api srv n w cfg = Some (outcome, w') \<and> j < k \<and>
      settle_task srv j (case outcome of
                           Inl e \<Rightarrow> rejects w' frames e
                         | Inr resp \<Rightarrow> resolves w' frames resp) = Some y"
proof (induction k arbitrary: w cfg frames rule: less_induct)
  case (less k)
  let ?req = "request_interceptor w cfg"
  let ?w1 = "dispatch w ?req"
  from less.prems obtain k' where k: "k = Suc k'"
    by (cases k) (simp_all add: start_eq)
  from less.prems[unfolded k settle_task_start]
  have run: "settle_task srv k' (on_response ?w1 (InFlight ?req frames) (srv (sent w @ [?req]))) = Some y" .
  show ?case
  proof (cases "settle (srv (sent w @ [?req]))")
    case (Resolved resp)
    with run have "settle_task srv k' (resolves ?w1 frames resp) = Some y" by simp
    with api_Resolved[where srv = srv and w = w and cfg = cfg and n = 0, OF Resolved] k
    show ?thesis by (intro exI[of _ "Suc 0"] exI[of _ "Inr resp"] exI[of _ ?w1] exI[of _ k']) simp
  next
    case (Rejected err)
    show ?thesis
    proof (cases "response_rejected ?w1 ?req err")
      case (Propagate e)
      with Rejected run have "settle_task srv k' (rejects ?w1 frames e) = Some y" by simp
      with api_Propagate[where srv = srv and w = w and cfg = cfg and n = 0, OF Rejected Propagate] k
      show ?thesis by (intro exI[of _ "Suc 0"] exI[of _ "Inl e"] exI[of _ ?w1] exI[of _ k']) simp
    next
      case (Refresh marked rt)
      with Rejected run
      have "settle_task srv k' (start ?w1 (refreshToken_config rt) ((marked, err) # frames)) = Some y"
        by simp
      from less.IH[OF _ this] k obtain n2 out2 w2 j2 where
        call: "api srv n2 ?w1 (refreshToken_config rt) = Some (out2, w2)" and j2: "j2 < k'"
        and go: "settle_task srv j2 (case out2 of
                    Inl e \<Rightarrow> rejects w2 ((marked, err) # frames) e
                  | Inr resp \<Rightarrow> resolves w2 ((marked, err) # frames) resp) = Some y"
        by auto
      show ?thesis
      proof (cases out2)
        case (Inl e)
        with go have "settle_task srv j2 (rejects (refresh_failed w2) frames (handleError err)) = Some y"
          by simp
        moreover from call Inl
        have "api srv n2 ?w1 (refreshToken_config rt) = Some (Inl e, w2)" by simp
        then have "api srv (Suc n2) w cfg = Some (Inl (handleError err), refresh_failed w2)"
          by (rule api_refresh_rejected[where srv = srv and w = w and cfg = cfg, OF Rejected Refresh])
        ultimately show ?thesis using j2 k
          by (intro exI[of _ "Suc n2"] exI[of _ "Inl (handleError err)"]
                exI[of _ "refresh_failed w2"] exI[of _ j2]) simp
      next
        case (Inr resp)
        with call have call': "api srv n2 ?w1 (refreshToken_config rt) = Some (Inr resp, w2)" by simp
        show ?thesis
        proof (cases "refresh_resolved w2 marked resp")
          case None
          with go Inr
          have "settle_task srv j2 (rejects (refresh_failed w2) frames (handleError err)) = Some y"
            by simp
          moreover
          have "api srv (Suc n2) w cfg = Some (Inl (handleError err), refresh_failed w2)"
            by (rule api_refresh_unreadable[where srv = srv and w = w and cfg = cfg,
                  OF Rejected Refresh call' None])
          ultimately show ?thesis using j2 k
            by (intro exI[of _ "Suc n2"] exI[of _ "Inl (handleError err)"]
                  exI[of _ "refresh_failed w2"] exI[of _ j2]) simp
        next
          case (Some p)
          obtain w3 again where p: "p = (w3, again)" by (cases p)
          with Some have res: "refresh_resolved w2 marked resp = Some (w3, again)" by simp
          with go Inr have "settle_task srv j2 (start w3 again frames) = Some y" by simp
          from less.IH[OF _ this] j2 k obtain n3 out3 w3' j3 where
            retry: "api srv n3 w3 again = Some (out3, w3')" and j3: "j3 < j2"
            and go3: "settle_task srv j3 (case out3 of
                        Inl e \<Rightarrow> rejects w3' frames e
                      | Inr resp \<Rightarrow> resolves w3' frames resp) = Some y"
            by auto
          from api_mono[OF call', of n3]
          have c2: "api srv (n2 + n3) ?w1 (refreshToken_config rt) = Some (Inr resp, w2)" .
          from api_mono[OF retry, of n2]
          have c3: "api srv (n2 + n3) w3 again = Some (out3, w3')" by (simp add: add.commute)
          have "api srv (Suc (n2 + n3)) w cfg = Some (out3, w3')"
            using api_Refresh[where srv = srv and w = w and cfg = cfg, OF Rejected Refresh c2 res] c3
            by simp
          with go3 j3 j2 k show ?thesis
            by (intro exI[of _ "Suc (n2 + n3)"] exI[of _ out3] exI[of _ w3'] exI[of _ j3]) simp
        qed
      qed
    qed
  qed
qed

text \<open>
  Together: a request settles under some bound of \<open>api\<close> exactly when its task
  settles running alone, and with the same outcome and world.
\<close>

lemma api_iff_single_task:
  "(\<exists>n. api srv n w cfg = Some (outcome, w')) \<longleftrightarrow>
   (\<exists>k. settle_task srv k (start w cfg []) = Some (outcome, w'))"
proof
  assume "\<exists>n. api srv n w cfg = Some (outcome, w')"
  then show "\<exists>k. settle_task srv k (start w cfg []) = Some (outcome, w')"
    using api_is_single_task by blast
next
  assume "\<exists>k. settle_task srv k (start w cfg []) = Some (outcome, w')"
  then obtain k where "settle_task srv k (start w cfg []) = Some (outcome, w')" ..
  from task_simulated[OF this] obtain n out0 w0 j where
    a: "api srv n w cfg = Some (out0, w0)"
    and "settle_task srv j (case out0 of Inl e \<Rightarrow> rejects w0 [] e | Inr resp \<Rightarrow> resolves w0 [] resp)
           = Some (outcome, w')"
    by blast
  then have "out0 = outcome \<and> w0 = w'" by (cases out0) simp_all
  with a show "\<exists>n. api srv n w cfg = Some (outcome, w')" by blast
qed

subsection \<open>Requests that fail together\<close>

lemma on_response_unauthorized:
  "\<not> retry c \<Longrightarrow> truthy_item (refresh_token w) = Some rt \<Longrightarrow>
   on_response w (InFlight c frames) (Some (Response 401 d)) =
     (dispatch w (request_interceptor w (refreshToken_config rt)),
      InFlight (request_interceptor w (refreshToken_config rt))
        ((c\<lparr>retry := True\<rparr>, Some (Response 401 d)) # frames))"
  by (simp add: response_rejected_Refresh start_eq)

text \<open>
  Against a server that answers 401 to everything, the task of a request never
  settles either: each response makes it dispatch another refresh call.
\<close>

lemma task_rejected_forever:
  "truthy_item (refresh_token w) = Some rt \<Longrightarrow> \<not> retry c \<Longrightarrow>
   settle_task (\<lambda>log. Some (Response 401 d)) k (w, InFlight c frames) = None"
proof (induction k arbitrary: w c frames)
  case 0
  then show ?case by simp
next
  case (Suc k)
  have "settle_task (\<lambda>log. Some (Response 401 d)) k
          (dispatch w (request_interceptor w (refreshToken_config rt)),
           InFlight (request_interceptor w (refreshToken_config rt))
             ((c\<lparr>retry := True\<rparr>, Some (Response 401 d)) # frames)) = None"
    using Suc.prems(1) by (intro Suc.IH) (simp_all add: refreshToken_config_def)
  with Suc.prems show ?case by (simp add: response_rejected_Refresh start_eq)
qed

lemma request_interceptor_cong_sent:
  "request_interceptor (w\<lparr>sent := s\<rparr>) cfg = request_interceptor w cfg"
  by (simp add: request_interceptor_def)

lemma refresh_calls_replicate:
  "url rq = ''/auth/token/refresh/'' \<Longrightarrow>
   refresh_calls (w\<lparr>sent := sent w @ replicate n rq\<rparr>) = refresh_calls w + n"
  by (simp add: refresh_calls_def)

text \<open>
  The responses 401 arrive for the tasks listed in \<open>js\<close>, in that order, none of
  them twice: each arrival dispatches one more refresh call and leaves its task
  waiting for that call.
\<close>

lemma run_unauthorized:
  fixes bodies :: "nat \<Rightarrow> json"
  assumes "truthy_item (refresh_token w) = Some rt"
    and "\<forall>c \<in> set cs. \<not> retry c"
  shows "distinct js \<Longrightarrow> set js \<subseteq> {..<length cs} \<Longrightarrow>
         run (w, map (\<lambda>c. InFlight c []) cs) (map (\<lambda>i. (i, Some (Response 401 (bodies i)))) js) =
           (w\<lparr>sent := sent w @ replicate (length js) (request_interceptor w (refreshToken_config rt))\<rparr>,
            map (\<lambda>i. if i \<in> set js
                      then InFlight (request_interceptor w (refreshToken_config rt))
                             [((cs ! i)\<lparr>retry := True\<rparr>, Some (Response 401 (bodies i)))]
                      else InFlight (cs ! i) [])
                [0..<length cs])"
proof (induction js rule: rev_induct)
  case Nil
  have "map (\<lambda>i. InFlight (cs ! i) []) [0..<length cs] = map (\<lambda>c. InFlight c []) cs"
    by (rule nth_equalityI) simp_all
  then show ?case by (simp add: run_def)
next
  case (snoc j js)
  let ?rq = "request_interceptor w (refreshToken_config rt)"
  let ?W = "w\<lparr>sent := sent w @ replicate (length js) ?rq\<rparr>"
  let ?waiting = "\<lambda>i. InFlight ?rq [((cs ! i)\<lparr>retry := True\<rparr>, Some (Response 401 (bodies i)))]"
  let ?T = "map (\<lambda>i. if i \<in> set js then ?waiting i else InFlight (cs ! i) []) [0..<length cs]"
  from snoc.prems have j: "j < length cs" "j \<notin> set js" and js: "distinct js" "set js \<subseteq> {..<length cs}"
    by auto
  from snoc.IH[OF js]
  have before: "run (w, map (\<lambda>c. InFlight c []) cs) (map (\<lambda>i. (i, Some (Response 401 (bodies i)))) js) = (?W, ?T)" .
  from j have Tj: "?T ! j = InFlight (cs ! j) []" by simp
  from j assms(2) have fresh: "\<not> retry (cs ! j)" by simp
  have stored: "truthy_item (refresh_token ?W) = Some rt" using assms(1) by simp
  have "on_response ?W (?T ! j) (Some (Response 401 (bodies j))) =
      (dispatch ?W ?rq, ?waiting j)"
    unfolding Tj on_response_unauthorized[OF fresh stored] request_interceptor_cong_sent ..
  moreover have "dispatch ?W ?rq = w\<lparr>sent := sent w @ replicate (length (js @ [j])) ?rq\<rparr>"
    by (simp add: dispatch_def replicate_append_same)
  moreover have "?T[j := ?waiting j] =
      map (\<lambda>i. if i \<in> set (js @ [j]) then ?waiting i else InFlight (cs ! i) []) [0..<length cs]"
    using j by (intro nth_equalityI) (auto simp: nth_list_update)
  ultimately
  have "deliver (?W, ?T) (j, Some (Response 401 (bodies j))) =
      (w\<lparr>sent := sent w @ replicate (length (js @ [j])) ?rq\<rparr>,
       map (\<lambda>i. if i \<in> set (js @ [j]) then ?waiting i else InFlight (cs ! i) []) [0..<length cs])"
    using j(1) by (simp add: deliver_def)
  with before show ?case by (simp add: run_def)
qed

text \<open>
  Claim C3 says that N requests failing with 401 together lead to exactly one
  refresh call, whose outcome all of them share. Two requests are dispatched and
  both are answered 401: two refresh calls go out. One is answered 200 and the other
  400: the first request is retried and succeeds, the second fails and starts the
  logout.
\<close>

theorem two_refresh_calls_counterexample:
  "refresh_calls (fst (run two_requests two_requests_arrivals)) = 2
   \<and> snd (run two_requests two_requests_arrivals) =
       [Settled (Inr (Response 200 (JArr []))),
        Settled (Inl \<lparr>message = JStr ''An unexpected error occurred'', status = 401, details = None\<rparr>)]
   \<and> location (fst (run two_requests two_requests_arrivals)) = ''/login''
   \<and> access_token (fst (run two_requests two_requests_arrivals)) = Some ''fresh''"
  by code_simp

text \<open>
  Claim C3 as amended. N requests are in flight, none marked retried and none waiting
  for a refresh, and a refresh token is stored. When all of them are answered 401, in
  whatever order, N refresh calls are dispatched, one by each request, and each
  request waits for the outcome of its own call.
\<close>

theorem each_unauthorized_request_refreshes:
  fixes bodies :: "nat \<Rightarrow> json"
  assumes "refresh_token w = Some rt" and "rt \<noteq> []"
    and "\<forall>c \<in> set cs. \<not> retry c"
    and "distinct arrivals" and "set arrivals = {..<length cs}"
  shows "\<exists>w' tasks.
           run (w, map (\<lambda>c. InFlight c []) cs) (map (\<lambda>i. (i, Some (Response 401 (bodies i)))) arrivals)
             = (w', tasks)
           \<and> refresh_calls w' = refresh_calls w + length cs
           \<and> sent w' = sent w @ replicate (length cs) (request_interceptor w (refreshToken_config rt))
           \<and> length tasks = length cs
           \<and> (\<forall>i < length cs.
                 tasks ! i = InFlight (request_interceptor w (refreshToken_config rt))
                               [((cs ! i)\<lparr>retry := True\<rparr>, Some (Response 401 (bodies i)))])"
proof -
  let ?rq = "request_interceptor w (refreshToken_config rt)"
  have stored: "truthy_item (refresh_token w) = Some rt"
    using assms(1,2) by (simp add: truthy_item_def)
  have n: "length arrivals = length cs"
    using assms(4,5) distinct_card[of arrivals] by simp
  have "url ?rq = ''/auth/token/refresh/''"
    by (simp add: refreshToken_config_def)
  then have calls: "refresh_calls (w\<lparr>sent := sent w @ replicate (length cs) ?rq\<rparr>) = refresh_calls w + length cs"
    by (rule refresh_calls_replicate)
  from run_unauthorized[OF stored assms(3,4), of bodies] assms(5)
  have "run (w, map (\<lambda>c. InFlight c []) cs) (map (\<lambda>i. (i, Some (Response 401 (bodies i)))) arrivals) =
      (w\<lparr>sent := sent w @ replicate (length cs) ?rq\<rparr>,
       map (\<lambda>i. if i \<in> set arrivals
                 then InFlight ?rq [((cs ! i)\<lparr>retry := True\<rparr>, Some (Response 401 (bodies i)))]
                 else InFlight (cs ! i) [])
           [0..<length cs])"
    by (simp add: n)
  with calls assms(5) show ?thesis by simp
qed

theorem each_unauthorized_request_refreshes_witness:
  "\<exists>w' tasks.
     run (example_world, [InFlight getConversations_config [], InFlight getModels_config []])
         [(Suc 0, Some (Response 401 JNull)), (0, Some (Response 401 JNull))]
       = (w', tasks)
     \<and> refresh_calls w' = 2
     \<and> tasks ! 0 = InFlight (request_interceptor example_world (refreshToken_config ''r1''))
                      [(getConversations_config\<lparr>retry := True\<rparr>, Some (Response 401 JNull))]
     \<and> tasks ! 1 = InFlight (request_interceptor example_world (refreshToken_config ''r1''))
                      [(getModels_config\<lparr>retry := True\<rparr>, Some (Response 401 JNull))]"
proof -
  let ?cs = "[getConversations_config, getModels_config]"
  have h1: "refresh_token example_world = Some ''r1''" by (simp add: example_world_def)
  have h2: "''r1'' \<noteq> []" by simp
  have h3: "\<forall>c \<in> set ?cs. \<not> retry c"
    by (simp add: getConversations_config_def getModels_config_def)
  have h4: "distinct [Suc 0, 0]" by simp
  have h5: "set [Suc 0, 0] = {..<length ?cs}" by auto
  have none: "refresh_calls example_world = 0" by (simp add: refresh_calls_def example_world_def)
  from each_unauthorized_request_refreshes[OF h1 h2 h3 h4 h5, of "\<lambda>i. JNull"]
  obtain w' tasks where
    r: "run (example_world, map (\<lambda>c. InFlight c []) ?cs)
          (map (\<lambda>i. (i, Some (Response 401 JNull))) [Suc 0, 0]) = (w', tasks)"
    and c: "refresh_calls w' = refresh_calls example_world + length ?cs"
    and t: "\<forall>i < length ?cs.
               tasks ! i = InFlight (request_interceptor example_world (refreshToken_config ''r1''))
                             [((?cs ! i)\<lparr>retry := True\<rparr>, Some (Response 401 JNull))]"
    by blast
  from t have "tasks ! 0 = InFlight (request_interceptor example_world (refreshToken_config ''r1''))
                      [(getConversations_config\<lparr>retry := True\<rparr>, Some (Response 401 JNull))]"
    and "tasks ! 1 = InFlight (request_interceptor example_world (refreshToken_config ''r1''))
                      [(getModels_config\<lparr>retry := True\<rparr>, Some (Response 401 JNull))]"
    by force+
  with r c none show ?thesis by simp
qed

end
